theory Spec2Isabelle
  imports Complex_Main "HOL-Library.Char_ord" "HOL-Library.List_Lexorder" "HOL-Library.Log_Nat"
begin

section \<open>Python values and the run-time operations the code relies on\<close>

text \<open>
  The property maps, the rows and the schema document (a parsed JSON file) are dynamically
  typed Python values.  Dictionaries have string keys and are kept as association lists;
  a Python dictionary never holds one key twice.  A float is a finite double and is kept
  as the rational number it denotes (no NaN, no infinity); the operations on floats that
  round are described with the true division below.
\<close>

datatype pyval =
    VNone
  | VBool bool
  | VInt int
  | VFloat rat
  | VStr string
  | VList "pyval list"
  | VDict "(string \<times> pyval) list"

text \<open>
  Exceptions are values.  The string is the fixed part of the message (for the
  exceptions the repository raises itself, followed by the name it interpolates).
\<close>

datatype error =
    ValueError string
  | TypeError string
  | KeyError string
  | AttributeError string
  | ZeroDivisionError
  | GeometryError
  | Failure string

definition bindE :: "error + 'a \<Rightarrow> ('a \<Rightarrow> error + 'b) \<Rightarrow> error + 'b" where
  "bindE m f = (case m of Inl e \<Rightarrow> Inl e | Inr v \<Rightarrow> f v)"

text \<open>Truth value of an object in a condition (\<open>if x\<close>, \<open>x and y\<close>).\<close>

fun truthy :: "pyval \<Rightarrow> bool" where
  "truthy VNone = False"
| "truthy (VBool b) = b"
| "truthy (VInt n) = (n \<noteq> 0)"
| "truthy (VFloat x) = (x \<noteq> 0)"
| "truthy (VStr s) = (s \<noteq> [])"
| "truthy (VList xs) = (xs \<noteq> [])"
| "truthy (VDict kvs) = (kvs \<noteq> [])"

text \<open>\<open>d.get(k)\<close> on a dictionary: the value, or \<open>None\<close> when the key is absent.\<close>

definition dict_get :: "(string \<times> pyval) list \<Rightarrow> string \<Rightarrow> pyval" where
  "dict_get kvs k = (case map_of kvs k of None \<Rightarrow> VNone | Some v \<Rightarrow> v)"

text \<open>\<open>x.get(k)\<close> on any object: only a dictionary has the method.\<close>

fun py_get :: "pyval \<Rightarrow> string \<Rightarrow> error + pyval" where
  "py_get (VDict kvs) k = Inr (dict_get kvs k)"
| "py_get v k = Inl (AttributeError ''get'')"

text \<open>\<open>x[k]\<close> with a string key.\<close>

fun py_index :: "pyval \<Rightarrow> string \<Rightarrow> error + pyval" where
  "py_index (VDict kvs) k = (case map_of kvs k of None \<Rightarrow> Inl (KeyError k) | Some v \<Rightarrow> Inr v)"
| "py_index v k = Inl (TypeError ''subscript'')"

fun py_keys :: "pyval \<Rightarrow> error + string list" where
  "py_keys (VDict kvs) = Inr (map fst kvs)"
| "py_keys v = Inl (AttributeError ''keys'')"

fun py_items :: "pyval \<Rightarrow> error + (string \<times> pyval) list" where
  "py_items (VDict kvs) = Inr kvs"
| "py_items v = Inl (AttributeError ''items'')"

text \<open>
  \<open>isinstance\<close>: \<open>bool\<close> is a subclass of \<open>int\<close>, so a boolean is an instance of
  \<open>int\<close>, and of the pair \<open>(float, int)\<close>.
\<close>

fun isinstance_str :: "pyval \<Rightarrow> bool" where
  "isinstance_str (VStr s) = True"
| "isinstance_str v = False"

fun isinstance_int :: "pyval \<Rightarrow> bool" where
  "isinstance_int (VInt n) = True"
| "isinstance_int (VBool b) = True"
| "isinstance_int v = False"

fun isinstance_float_int :: "pyval \<Rightarrow> bool" where
  "isinstance_float_int (VFloat x) = True"
| "isinstance_float_int (VInt n) = True"
| "isinstance_float_int (VBool b) = True"
| "isinstance_float_int v = False"

fun isinstance_bool :: "pyval \<Rightarrow> bool" where
  "isinstance_bool (VBool b) = True"
| "isinstance_bool v = False"

fun isinstance_list :: "pyval \<Rightarrow> bool" where
  "isinstance_list (VList xs) = True"
| "isinstance_list v = False"

fun isinstance_dict :: "pyval \<Rightarrow> bool" where
  "isinstance_dict (VDict kvs) = True"
| "isinstance_dict v = False"

text \<open>The numeric value of a number; a boolean counts as 0 or 1.\<close>

fun num_of :: "pyval \<Rightarrow> rat option" where
  "num_of (VBool b) = Some (if b then 1 else 0)"
| "num_of (VInt n) = Some (of_int n)"
| "num_of (VFloat x) = Some x"
| "num_of v = None"

text \<open>
  \<open>==\<close>: numbers compare by value across \<open>bool\<close>, \<open>int\<close> and \<open>float\<close>, lists
  elementwise, dictionaries as sets of entries.  Both sides are brought to a canonical
  form (numbers as one kind, entries sorted by key) and compared.
\<close>

fun canon :: "pyval \<Rightarrow> pyval" where
  "canon (VBool b) = VFloat (if b then 1 else 0)"
| "canon (VInt n) = VFloat (of_int n)"
| "canon (VList xs) = VList (map canon xs)"
| "canon (VDict kvs) = VDict (sort_key fst (map (map_prod id canon) kvs))"
| "canon v = v"

definition py_eq :: "pyval \<Rightarrow> pyval \<Rightarrow> bool" where
  "py_eq a b = (canon a = canon b)"

text \<open>
  \<open><\<close>: numbers by value, strings and lists lexicographically; any other pair of
  types raises \<open>TypeError\<close>.  \<open>a > b\<close> is \<open>b < a\<close>.
\<close>

fun py_lt :: "pyval \<Rightarrow> pyval \<Rightarrow> error + bool"
  and py_lt_list :: "pyval list \<Rightarrow> pyval list \<Rightarrow> error + bool" where
  "py_lt (VStr a) (VStr b) = Inr (a < b)"
| "py_lt (VList a) (VList b) = py_lt_list a b"
| "py_lt a b =
     (case (num_of a, num_of b) of
        (Some x, Some y) \<Rightarrow> Inr (x < y)
      | _ \<Rightarrow> Inl (TypeError ''ordering''))"
| "py_lt_list [] [] = Inr False"
| "py_lt_list [] (y # ys) = Inr True"
| "py_lt_list (x # xs) [] = Inr False"
| "py_lt_list (x # xs) (y # ys) = (if py_eq x y then py_lt_list xs ys else py_lt x y)"

definition py_gt :: "pyval \<Rightarrow> pyval \<Rightarrow> error + bool" where
  "py_gt a b = py_lt b a"

text \<open>\<open>s.upper()\<close>, on ASCII letters.\<close>

definition char_upper :: "char \<Rightarrow> char" where
  "char_upper c =
     (if CHR ''a'' \<le> c \<and> c \<le> CHR ''z'' then char_of (of_char c - (32::nat)) else c)"

fun py_upper :: "pyval \<Rightarrow> error + string" where
  "py_upper (VStr s) = Inr (map char_upper s)"
| "py_upper v = Inl (AttributeError ''upper'')"

text \<open>\<open>x in c\<close>: list membership by \<open>==\<close>, dictionary membership by key, substring.\<close>

fun is_substring :: "string \<Rightarrow> string \<Rightarrow> bool" where
  "is_substring t [] = (t = [])"
| "is_substring t (c # s) = (take (length t) (c # s) = t \<or> is_substring t s)"

fun py_in :: "pyval \<Rightarrow> pyval \<Rightarrow> error + bool" where
  "py_in x (VList xs) = Inr (list_ex (py_eq x) xs)"
| "py_in (VList v) (VDict kvs) = Inl (TypeError ''unhashable'')"
| "py_in (VDict v) (VDict kvs) = Inl (TypeError ''unhashable'')"
| "py_in (VStr k) (VDict kvs) = Inr (k \<in> set (map fst kvs))"
| "py_in x (VDict kvs) = Inr False"
| "py_in (VStr t) (VStr s) = Inr (is_substring t s)"
| "py_in x c = Inl (TypeError ''not iterable'')"

section \<open>Validation against the schema (neo4j/validation.py)\<close>

text \<open>
  \<open>VALIDATORS\<close>: the table of run-time shape checks, keyed by the type tag.  The
  \<open>ENUM\<close> entry takes two arguments and is called with one, which raises \<open>TypeError\<close>.
\<close>

definition validate_point :: "pyval \<Rightarrow> bool" where
  "validate_point x =
     (case x of
        VDict kvs \<Rightarrow>
          (case map_of kvs ''latitude'' of
             None \<Rightarrow> False
           | Some la \<Rightarrow> isinstance_float_int la \<and>
               (case map_of kvs ''longitude'' of
                  None \<Rightarrow> False
                | Some lo \<Rightarrow> isinstance_float_int lo))
      | _ \<Rightarrow> False)"

definition VALIDATORS :: "string \<Rightarrow> (pyval \<Rightarrow> error + bool) option" where
  "VALIDATORS tag =
     (if tag = ''STRING'' then Some (\<lambda>x. Inr (isinstance_str x))
      else if tag = ''INTEGER'' then Some (\<lambda>x. Inr (isinstance_int x))
      else if tag = ''FLOAT'' then Some (\<lambda>x. Inr (isinstance_float_int x))
      else if tag = ''BOOLEAN'' then Some (\<lambda>x. Inr (isinstance_bool x))
      else if tag = ''POINT'' then Some (\<lambda>x. Inr (validate_point x))
      else if tag = ''LIST'' then Some (\<lambda>x. Inr (isinstance_list x))
      else if tag = ''MAP'' then Some (\<lambda>x. Inr (isinstance_dict x))
      else if tag = ''ENUM'' then Some (\<lambda>x. Inl (TypeError ''missing argument allowed_values''))
      else None)"

text \<open>\<open>VALIDATORS.get(tag, lambda x: False)\<close>.\<close>

definition validator_for :: "string \<Rightarrow> pyval \<Rightarrow> error + bool" where
  "validator_for tag = (case VALIDATORS tag of Some f \<Rightarrow> f | None \<Rightarrow> (\<lambda>x. Inr False))"

text \<open>A node or relationship handed to the validator: \<open>{"label": ..., "properties": {...}}\<close>.\<close>

record entity =
  label :: string
  properties :: "(string \<times> pyval) list"

text \<open>The type check of \<open>validate_property\<close> (lines 56 to 62).\<close>

definition check_type :: "string \<Rightarrow> pyval \<Rightarrow> pyval \<Rightarrow> error + unit" where
  "check_type property_name property_type property_value =
     (if truthy property_type then
        bindE (py_upper property_type) (\<lambda>tag.
        bindE (validator_for tag property_value) (\<lambda>ok.
          if \<not> ok then Inl (TypeError (''must be of type: '' @ property_name)) else Inr ()))
      else Inr ())"

text \<open>The allow-list check (lines 64 to 68).\<close>

definition check_enum :: "string \<Rightarrow> pyval \<Rightarrow> pyval \<Rightarrow> error + unit" where
  "check_enum property_name allowed property_value =
     (if truthy allowed then
        bindE (py_in property_value allowed) (\<lambda>found.
          if \<not> found then Inl (ValueError (''must be one of: '' @ property_name)) else Inr ())
      else Inr ())"

text \<open>The range check (lines 70 to 80).\<close>

definition check_range :: "string \<Rightarrow> pyval \<Rightarrow> pyval \<Rightarrow> error + unit" where
  "check_range property_name numeric_range property_value =
     (if truthy numeric_range then
        bindE (py_get numeric_range ''min'') (\<lambda>min_value.
        bindE (py_get numeric_range ''max'') (\<lambda>max_value.
        bindE (if min_value \<noteq> VNone then py_lt property_value min_value else Inr False) (\<lambda>below.
          if below then Inl (ValueError (''must be greater than or equal to min: '' @ property_name))
          else
            bindE (if max_value \<noteq> VNone then py_gt property_value max_value else Inr False) (\<lambda>above.
              if above then Inl (ValueError (''must be less than or equal to max: '' @ property_name))
              else Inr ()))))
      else Inr ())"

definition validate_property :: "entity \<Rightarrow> string \<Rightarrow> pyval \<Rightarrow> error + unit" where
  "validate_property node_or_rel_data property_name property_constraints =
     (let property_value = dict_get (properties node_or_rel_data) property_name in
      bindE (py_get property_constraints ''exists'') (\<lambda>exists_c.
      bindE (py_get property_constraints ''type'') (\<lambda>property_type.
      bindE (py_get property_constraints ''enum'') (\<lambda>enum_c.
      bindE (py_get property_constraints ''range'') (\<lambda>numeric_range.
        if truthy exists_c \<and> property_value = VNone then
          Inl (ValueError (''must exist but is missing: '' @ property_name))
        else if \<not> truthy exists_c \<and> property_value = VNone then Inr ()
        else
          bindE (check_type property_name property_type property_value) (\<lambda>_.
          bindE (check_enum property_name enum_c property_value) (\<lambda>_.
          check_range property_name numeric_range property_value)))))))"

text \<open>
  The set comprehension of \<open>validate_data\<close> (lines 111 to 115), over the items of the
  label's schema entry: each value's \<open>exists\<close> is read with \<open>.get\<close>.
\<close>

fun missing_properties :: "entity \<Rightarrow> (string \<times> pyval) list \<Rightarrow> error + string list" where
  "missing_properties d [] = Inr []"
| "missing_properties d ((key, v) # rest) =
     bindE (py_get v ''exists'') (\<lambda>ex.
     bindE (missing_properties d rest) (\<lambda>ms.
       Inr (if truthy ex \<and> key \<notin> set (map fst (properties d)) then key # ms else ms)))"

text \<open>The loop of lines 120 and 121, over the same items.\<close>

fun validate_each :: "entity \<Rightarrow> (string \<times> pyval) list \<Rightarrow> error + unit" where
  "validate_each d [] = Inr ()"
| "validate_each d ((property_name, property_constraints) # rest) =
     bindE (validate_property d property_name property_constraints) (\<lambda>_. validate_each d rest)"

definition validate_data :: "entity \<Rightarrow> pyval \<Rightarrow> bool \<Rightarrow> error + unit" where
  "validate_data node_or_rel_data constraints is_relationship =
     bindE (py_get constraints (if \<not> is_relationship then ''nodes'' else ''relationships''))
       (\<lambda>table.
     bindE (py_get table (label node_or_rel_data)) (\<lambda>node_or_rel_constraints.
       if \<not> truthy node_or_rel_constraints then
         Inl (ValueError (''No constraints found for label: '' @ label node_or_rel_data))
       else
         bindE (py_index node_or_rel_constraints ''properties'') (\<lambda>schema_properties.
         bindE (py_keys schema_properties) (\<lambda>schema_property_keys.
           if filter (\<lambda>k. k \<notin> set schema_property_keys)
                (map fst (properties node_or_rel_data)) \<noteq> []
           then Inl (ValueError ''Extra properties found in data'')
           else
             bindE (py_items node_or_rel_constraints) (\<lambda>items.
             bindE (missing_properties node_or_rel_data items) (\<lambda>missing.
               if missing \<noteq> [] then Inl (ValueError ''Missing required properties'')
               else validate_each node_or_rel_data items))))))"

section \<open>The graph store and the queries sent to it (neo4j/construction.py, neo4j/spatial.py)\<close>

text \<open>
  The store is the state every operation threads through: nodes with an identity, one
  label and a property map; relationships between node identities; and the registry of
  spatial layers with the identities of their members.  The backing engine is outside the
  repository; what is modelled is the documented meaning of the query text the repository
  sends: \<open>MATCH\<close> by label and property equality, \<open>MERGE\<close>, \<open>SET x = map\<close>
  (replace the property map), \<open>SET x += map\<close> (merge into it).  A property set to null
  does not exist; a comparison with null never holds; \<open>MERGE\<close> of a node on a null
  property value is an error.  The engine is otherwise taken to execute every query.
\<close>

record node =
  node_id :: nat
  node_label :: string
  node_props :: "(string \<times> pyval) list"

record relationship =
  rel_type :: string
  rel_start :: nat
  rel_end :: nat
  rel_props :: "(string \<times> pyval) list"

record graph =
  nodes :: "node list"
  rels :: "relationship list"
  layers :: "(string \<times> nat list) list"

text \<open>Dictionary update, removal and the merge \<open>{**a, **b}\<close> (the right side wins).\<close>

fun dict_set :: "(string \<times> pyval) list \<Rightarrow> string \<Rightarrow> pyval \<Rightarrow> (string \<times> pyval) list" where
  "dict_set [] k v = [(k, v)]"
| "dict_set ((k', v') # kvs) k v =
     (if k' = k then (k, v) # kvs else (k', v') # dict_set kvs k v)"

definition dict_del :: "(string \<times> pyval) list \<Rightarrow> string \<Rightarrow> (string \<times> pyval) list" where
  "dict_del kvs k = filter (\<lambda>kv. fst kv \<noteq> k) kvs"

definition dict_union ::
  "(string \<times> pyval) list \<Rightarrow> (string \<times> pyval) list \<Rightarrow> (string \<times> pyval) list" where
  "dict_union a b = foldl (\<lambda>d kv. dict_set d (fst kv) (snd kv)) a b"

text \<open>The comprehension \<open>{k: props[k] for k in keys}\<close>; a missing key raises.\<close>

fun pick :: "(string \<times> pyval) list \<Rightarrow> string list \<Rightarrow> error + (string \<times> pyval) list" where
  "pick d [] = Inr []"
| "pick d (k # ks) =
     (case map_of d k of
        None \<Rightarrow> Inl (KeyError k)
      | Some v \<Rightarrow> bindE (pick d ks) (\<lambda>r. Inr (dict_union [(k, v)] r)))"

text \<open>Equality of property values in the engine: integers and floats compare by value.\<close>

fun cy_canon :: "pyval \<Rightarrow> pyval" where
  "cy_canon (VInt n) = VFloat (of_int n)"
| "cy_canon (VList xs) = VList (map cy_canon xs)"
| "cy_canon v = v"

definition cy_eq :: "pyval \<Rightarrow> pyval \<Rightarrow> bool" where
  "cy_eq a b = (a \<noteq> VNone \<and> b \<noteq> VNone \<and> cy_canon a = cy_canon b)"

text \<open>\<open>SET x = m\<close> and \<open>SET x += m\<close> on a property map.\<close>

definition cy_set_replace :: "(string \<times> pyval) list \<Rightarrow> (string \<times> pyval) list" where
  "cy_set_replace m = filter (\<lambda>kv. snd kv \<noteq> VNone) m"

definition cy_set_merge ::
  "(string \<times> pyval) list \<Rightarrow> (string \<times> pyval) list \<Rightarrow> (string \<times> pyval) list" where
  "cy_set_merge old m =
     foldl (\<lambda>d kv. if snd kv = VNone then dict_del d (fst kv) else dict_set d (fst kv) (snd kv))
       old m"

text \<open>
  The pattern \<open>(n:Label {k1: $k1, ...})\<close>: the node has the label and, for each key, a
  property equal to the parameter of the same name.
\<close>

definition node_matches ::
  "string \<Rightarrow> string list \<Rightarrow> (string \<times> pyval) list \<Rightarrow> node \<Rightarrow> bool" where
  "node_matches lbl keys params n =
     (node_label n = lbl
      \<and> list_all (\<lambda>k. cy_eq (dict_get (node_props n) k) (dict_get params k)) keys)"

definition match_nodes ::
  "graph \<Rightarrow> string \<Rightarrow> string list \<Rightarrow> (string \<times> pyval) list \<Rightarrow> node list" where
  "match_nodes g lbl keys params = filter (node_matches lbl keys params) (nodes g)"

definition fresh_id :: "graph \<Rightarrow> nat" where
  "fresh_id g = Suc (foldr max (map node_id (nodes g)) 0)"

text \<open>Truth value of a node or relationship handle: a mapping, false when it has no property.\<close>

definition node_truthy :: "node \<Rightarrow> bool" where
  "node_truthy n = (node_props n \<noteq> [])"

text \<open>
  \<open>create_node\<close>:
  \<^verbatim>\<open>MERGE (n:label {k: $k, ...}) SET n += $remaining_props RETURN n\<close>
  with the parameters \<open>{**merge_props, "remaining_props": remaining_props}\<close>.
  The result is the first returned node, or \<open>None\<close> for the \<open>False\<close> of the handler.
  Every caller passes \<open>match_keys\<close>; the default \<open>None\<close>, which the comprehension
  cannot iterate, is not part of the model.
\<close>

definition create_node ::
  "graph \<Rightarrow> string \<Rightarrow> (string \<times> pyval) list \<Rightarrow> string list \<Rightarrow> node option \<times> graph" where
  "create_node g lbl props match_keys =
     (case pick props match_keys of
        Inl e \<Rightarrow> (None, g)
      | Inr merge_props \<Rightarrow>
          let remaining_props = filter (\<lambda>kv. fst kv \<notin> set match_keys) props;
              params = dict_union merge_props [(''remaining_props'', VDict remaining_props)]
          in if list_ex (\<lambda>k. dict_get params k = VNone) match_keys then (None, g)
             else
               let created = \<lparr>node_id = fresh_id g, node_label = lbl,
                                node_props = map (\<lambda>k. (k, dict_get params k)) (remdups match_keys)\<rparr>;
                   merged = (if match_nodes g lbl match_keys params = []
                             then nodes g @ [created] else nodes g);
                   updated = map (\<lambda>n. if node_matches lbl match_keys params n
                                        then n\<lparr>node_props := cy_set_merge (node_props n) remaining_props\<rparr>
                                        else n) merged
               in (case filter (node_matches lbl match_keys params) updated of
                     [] \<Rightarrow> (None, g\<lparr>nodes := updated\<rparr>)
                   | n # _ \<Rightarrow> (Some n, g\<lparr>nodes := updated\<rparr>)))"

text \<open>
  \<open>MERGE (a)-[r:T]->(b) SET r = $rel_properties\<close> for one pair of bound endpoints: the
  relationships of that type between them are bound, one is created when there is none,
  and the property map of each bound relationship is replaced.
\<close>

definition rel_between :: "string \<Rightarrow> nat \<Rightarrow> nat \<Rightarrow> relationship \<Rightarrow> bool" where
  "rel_between t a b r = (rel_type r = t \<and> rel_start r = a \<and> rel_end r = b)"

definition merge_rel ::
  "string \<Rightarrow> (string \<times> pyval) list \<Rightarrow> graph \<Rightarrow> nat \<times> nat \<Rightarrow> graph" where
  "merge_rel t stored g ab =
     (if list_ex (rel_between t (fst ab) (snd ab)) (rels g)
      then g\<lparr>rels := map (\<lambda>r. if rel_between t (fst ab) (snd ab) r
                                then r\<lparr>rel_props := stored\<rparr> else r) (rels g)\<rparr>
      else g\<lparr>rels := rels g @ [\<lparr>rel_type = t, rel_start = fst ab, rel_end = snd ab,
                                 rel_props = stored\<rparr>]\<rparr>)"

text \<open>
  The endpoint pairs the two \<open>MATCH\<close> patterns bind.  The parameters are one dictionary,
  \<open>{**start keys, **end keys, extra}\<close>: a key of the same name on both sides, or named as
  the extra parameter, takes the later value.  A match key missing from the supplied
  properties raises \<open>KeyError\<close>.
\<close>

definition endpoint_pairs ::
  "graph \<Rightarrow> string \<Rightarrow> (string \<times> pyval) list \<Rightarrow> string list
     \<Rightarrow> string \<Rightarrow> (string \<times> pyval) list \<Rightarrow> string list
     \<Rightarrow> string \<times> pyval \<Rightarrow> error + (nat \<times> nat) list" where
  "endpoint_pairs g start_label start_props start_match_keys
       end_label end_props end_match_keys extra =
     bindE (pick start_props start_match_keys) (\<lambda>sp.
     bindE (pick end_props end_match_keys) (\<lambda>ep.
       let params = dict_union (dict_union sp ep) [extra]
       in Inr (List.product
                 (map node_id (match_nodes g start_label start_match_keys params))
                 (map node_id (match_nodes g end_label end_match_keys params)))))"

text \<open>
  \<open>create_relationship\<close>:
  \<^verbatim>\<open>MATCH (a:start_label {..}) MATCH (b:end_label {..})
  MERGE (a)-[r:rel_type]->(b) SET r = $rel_properties WITH a, b, r RETURN r\<close>
  with the extra parameter \<open>"rel_properties": rel_properties or {}\<close>.
  With no row, \<open>result.single()\<close> is \<open>None\<close> and subscripting it raises, so the handler
  returns \<open>False\<close>; otherwise the result is the truth value of the first relationship.
\<close>

definition create_relationship ::
  "graph \<Rightarrow> string \<Rightarrow> (string \<times> pyval) list \<Rightarrow> string list
     \<Rightarrow> string \<Rightarrow> (string \<times> pyval) list \<Rightarrow> string list
     \<Rightarrow> string \<Rightarrow> (string \<times> pyval) list option \<Rightarrow> bool \<times> graph" where
  "create_relationship g start_label start_props start_match_keys
       end_label end_props end_match_keys rtype rel_properties =
     (let supplied = (case rel_properties of None \<Rightarrow> [] | Some m \<Rightarrow> m) in
      case endpoint_pairs g start_label start_props start_match_keys
             end_label end_props end_match_keys (''rel_properties'', VDict supplied) of
        Inl e \<Rightarrow> (False, g)
      | Inr bound \<Rightarrow>
          let g' = foldl (merge_rel rtype (cy_set_replace supplied)) g bound
          in if bound = [] then (False, g')
             else (cy_set_replace supplied \<noteq> [], g'))"

text \<open>
  \<open>update_relationship_properties\<close>:
  \<^verbatim>\<open>MATCH (a:start_label {..})-[r:rel_type]->(b:end_label {..}) SET r += $new_properties\<close>
  with the extra parameter \<open>"new_properties": new_properties\<close>.
\<close>

definition update_relationship_properties ::
  "graph \<Rightarrow> string \<Rightarrow> (string \<times> pyval) list \<Rightarrow> string list
     \<Rightarrow> string \<Rightarrow> (string \<times> pyval) list \<Rightarrow> string list
     \<Rightarrow> string \<Rightarrow> (string \<times> pyval) list \<Rightarrow> bool \<times> graph" where
  "update_relationship_properties g start_label start_props start_match_keys
       end_label end_props end_match_keys rtype new_properties =
     (case endpoint_pairs g start_label start_props start_match_keys
             end_label end_props end_match_keys (''new_properties'', VDict new_properties) of
        Inl e \<Rightarrow> (False, g)
      | Inr bound \<Rightarrow>
          (True,
           g\<lparr>rels := map (\<lambda>r. if rel_type r = rtype \<and> (rel_start r, rel_end r) \<in> set bound
                                then r\<lparr>rel_props := cy_set_merge (rel_props r) new_properties\<rparr>
                                else r) (rels g)\<rparr>))"

text \<open>
  Spatial layers.  \<open>init_wkt_layer\<close> and \<open>init_point_layer\<close> create the layer when the
  existence check finds none; \<open>add_node_to_spatial_layer\<close> registers the node found by its
  identity and fails when the layer or the node does not exist.  The spatial plug-in is
  taken to accept the geometry of every node it is given.
\<close>

definition init_layer :: "graph \<Rightarrow> string \<Rightarrow> graph" where
  "init_layer g layer_name =
     (if layer_name \<in> set (map fst (layers g)) then g
      else g\<lparr>layers := layers g @ [(layer_name, [])]\<rparr>)"

definition add_node_to_spatial_layer :: "graph \<Rightarrow> node \<Rightarrow> string \<Rightarrow> bool \<times> graph" where
  "add_node_to_spatial_layer g n layer_name =
     (if layer_name \<in> set (map fst (layers g)) \<and> node_id n \<in> set (map node_id (nodes g))
      then (True, g\<lparr>layers := map (\<lambda>l. if fst l = layer_name then (fst l, snd l @ [node_id n]) else l)
                                (layers g)\<rparr>)
      else (False, g))"

section \<open>Rendering values as text, floats, true division, truncation\<close>


text \<open>
  Floats.  Every finite double is a rational number, and a comparison of two floats is
  the comparison of the two rationals.  What rounds is kept apart from that.  A float
  literal of the source denotes the double nearest to its decimal.  The sum and the
  quotient of two numbers are the interpreter's: they round when the operands are floats,
  and they are parameters of the functions that compute them.

  \<open>double\<close> rounds a rational to the nearest double, a tie to the even significand
  (53 binary digits, the exponent of the leading digit not below -1022).  It gives the
  literals their value and the examples their arithmetic.
\<close>

definition pow2 :: "int \<Rightarrow> rat" where
  "pow2 e = (if 0 \<le> e then 2 ^ nat e else 1 / 2 ^ nat (- e))"

text \<open>The exponent of the leading binary digit of a positive rational.\<close>

definition ilog2 :: "rat \<Rightarrow> int" where
  "ilog2 x =
     (case quotient_of x of
        (p, q) \<Rightarrow> let d = bitlen p - bitlen q in if pow2 d \<le> x then d else d - 1)"

definition round_half_even :: "rat \<Rightarrow> int" where
  "round_half_even s =
     (let f = \<lfloor>s\<rfloor>; t = s - of_int f
      in if t < 1 / 2 then f else if 1 / 2 < t then f + 1 else if even f then f else f + 1)"

definition double :: "rat \<Rightarrow> rat" where
  "double x =
     (if x = 0 then 0
      else let e = max (ilog2 \<bar>x\<bar>) (- 1022); u = pow2 (e - 52)
           in sgn x * of_int (round_half_even (\<bar>x\<bar> / u)) * u)"

text \<open>
  The float literals of the source that are not whole numbers, each the double nearest
  to the decimal: \<open>0.05\<close>, \<open>0.10\<close>, \<open>0.15\<close>, \<open>0.2\<close> and \<open>0.20\<close>,
  \<open>0.30\<close>, \<open>0.4\<close>, \<open>0.50\<close>, \<open>0.6\<close>, \<open>0.8\<close>, \<open>0.95\<close>.
\<close>

definition lit_0_05 :: rat where
  "lit_0_05 = 3602879701896397 / 72057594037927936"

definition lit_0_10 :: rat where
  "lit_0_10 = 3602879701896397 / 36028797018963968"

definition lit_0_15 :: rat where
  "lit_0_15 = 5404319552844595 / 36028797018963968"

definition lit_0_20 :: rat where
  "lit_0_20 = 3602879701896397 / 18014398509481984"

definition lit_0_30 :: rat where
  "lit_0_30 = 5404319552844595 / 18014398509481984"

definition lit_0_40 :: rat where
  "lit_0_40 = 3602879701896397 / 9007199254740992"

definition lit_0_50 :: rat where
  "lit_0_50 = 1 / 2"

definition lit_0_60 :: rat where
  "lit_0_60 = 5404319552844595 / 9007199254740992"

definition lit_0_80 :: rat where
  "lit_0_80 = 3602879701896397 / 4503599627370496"

definition lit_0_95 :: rat where
  "lit_0_95 = 4278419646001971 / 4503599627370496"

text \<open>
  The arithmetic of the interpreter on the cells of a table: the sum and the quotient of
  two numbers.  \<open>a + b + c\<close> is read from the left.
\<close>

record arith =
  num_add :: "rat \<Rightarrow> rat \<Rightarrow> rat"
  num_div :: "rat \<Rightarrow> rat \<Rightarrow> rat"

definition py_sum :: "arith \<Rightarrow> rat \<Rightarrow> rat list \<Rightarrow> rat" where
  "py_sum ar x xs = foldl (num_add ar) x xs"

text \<open>
  \<open>a / b\<close>: a division by zero raises; otherwise the result is the quotient as the
  interpreter computes it, the first argument.
\<close>

definition py_truediv :: "(rat \<Rightarrow> rat \<Rightarrow> rat) \<Rightarrow> rat \<Rightarrow> rat \<Rightarrow> error + rat" where
  "py_truediv quot a b = (if b = 0 then Inl ZeroDivisionError else Inr (quot a b))"

definition py_int :: "rat \<Rightarrow> int" where
  "py_int x = (if 0 \<le> x then \<lfloor>x\<rfloor> else \<lceil>x\<rceil>)"

text \<open>An entry of a builder's failure list: the keys of the failed item and the exception.\<close>

type_synonym failure = "(string \<times> pyval) list \<times> error"

section \<open>Administrative topology (etl/administrative_topology.py)\<close>










text \<open>
  The geometry library is outside the repository: parsing well-known text (which may
  raise), intersection (which may raise), area and point containment are parameters.
  An area is a float; with them comes \<open>quotient\<close>, the quotient of two areas as the
  interpreter computes it.
\<close>

record 'g shapely =
  loads :: "pyval \<Rightarrow> error + 'g"
  intersection :: "'g \<Rightarrow> 'g \<Rightarrow> error + 'g"
  area :: "'g \<Rightarrow> rat"
  contains_point :: "'g \<Rightarrow> rat \<times> rat \<Rightarrow> bool"
  quotient :: "rat \<Rightarrow> rat \<Rightarrow> rat"

text \<open>A row of the spatial intersection query (lines 603 to 613).\<close>

record intersection_record =
  block_group :: pyval
  bg_wkt :: pyval
  zipcode :: pyval
  z_wkt :: pyval

text \<open>The conditional expression of lines 648 to 650.\<close>

definition containment_type :: "rat \<Rightarrow> string" where
  "containment_type overlap_ratio = (if overlap_ratio > lit_0_95 then ''Full'' else ''Partial'')"

text \<open>Lines 628 to 633: the overlap ratio of one row, or the exception raised on the way.\<close>

definition overlap_ratio_of :: "'g shapely \<Rightarrow> intersection_record \<Rightarrow> error + rat" where
  "overlap_ratio_of sh record =
     bindE (loads sh (bg_wkt record)) (\<lambda>bg_geom.
     bindE (loads sh (z_wkt record)) (\<lambda>z_geom.
     bindE (intersection sh bg_geom z_geom) (\<lambda>common.
       let intersection_area = area sh common;
           bg_area = area sh bg_geom
       in py_truediv (quotient sh) intersection_area bg_area)))"

text \<open>The per-record handler (lines 627 to 666).\<close>

definition intersection_step ::
  "'g shapely \<Rightarrow> nat \<times> failure list \<times> graph \<Rightarrow> intersection_record
     \<Rightarrow> nat \<times> failure list \<times> graph" where
  "intersection_step sh st record =
     (case st of (success_count, failed_instances, g) \<Rightarrow>
        case overlap_ratio_of sh record of
          Inl e \<Rightarrow>
            (success_count,
             failed_instances @
               [([(''block_group'', block_group record), (''zipcode'', zipcode record)], e)],
             g)
        | Inr overlap_ratio \<Rightarrow>
            (case create_relationship g
                    ''BlockGroup'' [(''ct_block_group'', block_group record)] [''ct_block_group'']
                    ''Zipcode'' [(''zipcode_number'', zipcode record)] [''zipcode_number'']
                    ''IS_WITHIN''
                    (Some [(''containment_type'', VStr (containment_type overlap_ratio)),
                           (''overlap_ratio'', VFloat overlap_ratio)]) of
               (_, g') \<Rightarrow> (Suc success_count, failed_instances, g')))"

text \<open>
  The routine: \<open>False\<close> when the query itself fails, else \<open>True\<close> with the counters
  after every row has gone through the handler.
\<close>

definition create_block_group_zipcode_intersection ::
  "'g shapely \<Rightarrow> graph \<Rightarrow> error + intersection_record list
     \<Rightarrow> bool \<times> nat \<times> failure list \<times> graph" where
  "create_block_group_zipcode_intersection sh g query_result =
     (case query_result of
        Inl e \<Rightarrow> (False, 0, [], g)
      | Inr records \<Rightarrow>
          (case foldl (intersection_step sh) (0, [], g) records of
             (success_count, failed_instances, g') \<Rightarrow>
               (True, success_count, failed_instances, g')))"

section \<open>The enrichment classifier (etl/geoenrichment.py)\<close>

text \<open>
  A prepared row: the numeric cell of each column.  A cell is a number (no missing
  value), and is handed to \<open>str\<close> as a float.
\<close>

type_synonym row = "string \<Rightarrow> rat"

text \<open>
  The six functions of one value.  Each is the chain of comparisons that chooses the
  category, and the result: the one combination with the category, and the value itself
  as its source value.
\<close>

definition population_category :: "rat \<Rightarrow> string" where
  "population_category v = (if v < 1000 then ''LOW'' else if v \<le> 2000 then ''MEDIUM'' else ''HIGH'')"

definition determine_population_level :: "rat \<Rightarrow> (string \<times> pyval) list list \<times> rat list" where
  "determine_population_level v = ([[(''level'', VStr (population_category v))]], [v])"

definition growth_category :: "rat \<Rightarrow> string" where
  "growth_category v =
     (if v < 0 then ''NEGATIVE'' else if v \<le> 1 then ''LOW''
      else if v \<le> 2 then ''MODERATE'' else if v \<le> 3 then ''HIGH''
      else ''VERY_HIGH'')"

definition determine_growth_rate :: "rat \<Rightarrow> (string \<times> pyval) list list \<times> rat list" where
  "determine_growth_rate v = ([[(''growth_rate'', VStr (growth_category v))]], [v])"

definition age_average_category :: "rat \<Rightarrow> string" where
  "age_average_category v =
     (if v < 5 then ''0-4'' else if v < 15 then ''5-14''
      else if v < 25 then ''15-24'' else if v < 45 then ''25-44''
      else if v < 65 then ''45-64'' else ''65+'')"

definition determine_age_average :: "rat \<Rightarrow> (string \<times> pyval) list list \<times> rat list" where
  "determine_age_average v = ([[(''group'', VStr (age_average_category v))]], [v])"

definition wealth_category :: "rat \<Rightarrow> string" where
  "wealth_category v =
     (if v \<le> lit_0_20 then ''LOW'' else if v \<le> lit_0_40 then ''LOWER_MIDDLE''
      else if v \<le> lit_0_60 then ''MIDDLE'' else if v \<le> lit_0_80 then ''UPPER_MIDDLE''
      else ''HIGH'')"

definition determine_wealth_category :: "rat \<Rightarrow> (string \<times> pyval) list list \<times> rat list" where
  "determine_wealth_category v = ([[(''category'', VStr (wealth_category v))]], [v])"

definition crime_category :: "rat \<Rightarrow> string" where
  "crime_category v =
     (if v < 80 then ''SAFEST'' else if v \<le> 119 then ''SAFE''
      else if v \<le> 199 then ''MODERATE'' else if v \<le> 499 then ''UNSAFE''
      else ''MOST_UNSAFE'')"

definition determine_crime_level :: "rat \<Rightarrow> (string \<times> pyval) list list \<times> rat list" where
  "determine_crime_level v = ([[(''category'', VStr (crime_category v))]], [v])"

definition spending_category :: "rat \<Rightarrow> string" where
  "spending_category v =
     (if v \<le> lit_0_20 then ''OCCASIONAL'' else if v \<le> lit_0_40 then ''LIGHT_SPENDER''
      else if v \<le> lit_0_60 then ''REGULAR'' else if v \<le> lit_0_80 then ''ENTHUSIAST''
      else ''SUPER_FAN'')"

definition determine_spending_level :: "rat \<Rightarrow> (string \<times> pyval) list list \<times> rat list" where
  "determine_spending_level v = ([[(''category'', VStr (spending_category v))]], [v])"

text \<open>The two nested \<open>get_representation_level\<close> functions.\<close>

definition age_representation_level :: "rat \<Rightarrow> string" where
  "age_representation_level x =
     (if x < lit_0_05 then ''VERY_LOW'' else if x < lit_0_10 then ''LOW''
      else if x < lit_0_20 then ''MODERATE'' else if x < lit_0_30 then ''HIGH''
      else ''DOMINANT'')"

definition education_representation_level :: "rat \<Rightarrow> string" where
  "education_representation_level x =
     (if x < lit_0_05 then ''VERY_LOW'' else if x < lit_0_15 then ''LOW''
      else if x < lit_0_30 then ''MODERATE'' else if x < lit_0_50 then ''HIGH''
      else ''VERY_HIGH'')"

text \<open>The dictionary \<open>age_group_aggregations\<close>: each entry a sum of columns.\<close>

definition age_group_aggregations :: "arith \<Rightarrow> row \<Rightarrow> (string \<times> rat) list" where
  "age_group_aggregations ar r =
     [(''0-4'', py_sum ar (r ''male0'') [r ''fem0'']),
      (''5-14'', py_sum ar (r ''male5'') [r ''male10'', r ''fem5'', r ''fem10'']),
      (''15-24'', py_sum ar (r ''male15'') [r ''male20'', r ''fem15'', r ''fem20'']),
      (''25-44'', py_sum ar (r ''male25'') [r ''male30'', r ''male35'', r ''male40'',
                                             r ''fem25'', r ''fem30'', r ''fem35'', r ''fem40'']),
      (''45-64'', py_sum ar (r ''male45'') [r ''male50'', r ''male55'', r ''male60'',
                                             r ''fem45'', r ''fem50'', r ''fem55'', r ''fem60'']),
      (''65+'', py_sum ar (r ''male65'') [r ''male70'', r ''male75'', r ''male80'', r ''male85'',
                                           r ''fem65'', r ''fem70'', r ''fem75'', r ''fem80'',
                                           r ''fem85''])]"

definition education_levels :: "row \<Rightarrow> (string \<times> rat) list" where
  "education_levels r =
     [(''BASIC'', r ''BASIC''), (''SECONDARY'', r ''SECONDARY''), (''HIGHER'', r ''HIGHER'')]"

text \<open>
  The loop of the non-zero branch of both functions: each share is the aggregate divided
  by the total population, and a division by zero would raise.
\<close>

fun representations ::
  "(rat \<Rightarrow> string) \<Rightarrow> string \<Rightarrow> arith \<Rightarrow> rat \<Rightarrow> (string \<times> rat) list
     \<Rightarrow> error + (string \<times> pyval) list list \<times> rat list" where
  "representations level key ar total_pop [] = Inr ([], [])"
| "representations level key ar total_pop ((name, aggregation) # rest) =
     bindE (py_truediv (num_div ar) aggregation total_pop) (\<lambda>representation.
     bindE (representations level key ar total_pop rest) (\<lambda>others.
       Inr ([(key, VStr name), (''representation'', VStr (level representation))] # fst others,
            representation # snd others)))"

text \<open>The loop of the zero branch: the lowest category and the source value 0.0.\<close>

definition zero_representations ::
  "string \<Rightarrow> (string \<times> rat) list \<Rightarrow> (string \<times> pyval) list list \<times> rat list" where
  "zero_representations key aggs =
     (map (\<lambda>a. [(key, VStr (fst a)), (''representation'', VStr ''VERY_LOW'')]) aggs,
      map (\<lambda>a. 0) aggs)"

definition determine_age_group_representations ::
  "arith \<Rightarrow> row \<Rightarrow> error + (string \<times> pyval) list list \<times> rat list" where
  "determine_age_group_representations ar r =
     (let total_population = r ''totpop_cy'' in
      if total_population = 0
      then Inr (zero_representations ''group'' (age_group_aggregations ar r))
      else representations age_representation_level ''group'' ar total_population
             (age_group_aggregations ar r))"

definition determine_education_level ::
  "arith \<Rightarrow> row \<Rightarrow> error + (string \<times> pyval) list list \<times> rat list" where
  "determine_education_level ar r =
     (let total_pop = r ''totpop_cy'' in
      if total_pop = 0 then Inr (zero_representations ''level'' (education_levels r))
      else representations education_representation_level ''level'' ar total_pop
             (education_levels r))"

text \<open>The dictionary \<open>enrichments\<close> of one row (lines 431 to 442), in its order.\<close>

definition enrichments ::
  "arith \<Rightarrow> row \<Rightarrow> error + (string \<times> (string \<times> pyval) list list \<times> rat list) list" where
  "enrichments ar r =
     bindE (determine_age_group_representations ar r) (\<lambda>age_groups.
     bindE (determine_education_level ar r) (\<lambda>education.
       Inr [(''TotalPopulation'', determine_population_level (r ''totpop_cy'')),
            (''PopulationGrowth'', determine_growth_rate (r ''popgrwcyfy'')),
            (''AgeAverage'', determine_age_average (r ''avg_age'')),
            (''AgeGroup'', age_groups),
            (''WealthIndex'', determine_wealth_category (r ''normalized_wlthindxcy'')),
            (''EducationLevel'', education),
            (''CrimeIndex'', determine_crime_level (r ''crmcytotc'')),
            (''FastFoodSpendingIndex'', determine_spending_level (r ''normalized_fastfoodspending''))]))"

text \<open>
  The two nested loops (lines 443 to 449): every pair that \<open>zip\<close> yields, with the
  enrichment type it belongs to.
\<close>

definition enrichment_pairs ::
  "(string \<times> (string \<times> pyval) list list \<times> rat list) list
     \<Rightarrow> (string \<times> (string \<times> pyval) list \<times> rat) list" where
  "enrichment_pairs es =
     concat (map (\<lambda>e. map (\<lambda>cv. (fst e, fst cv, snd cv)) (zip (fst (snd e)) (snd (snd e)))) es)"

definition ct_block_group_of :: "(pyval \<Rightarrow> string) \<Rightarrow> row \<Rightarrow> string" where
  "ct_block_group_of str_of r =
     str_of (VInt (py_int (r ''tractce''))) @ str_of (VFloat (r ''blkgrpce''))"

text \<open>The call of lines 451 to 463 for one pair.\<close>

definition enrichment_edge ::
  "(pyval \<Rightarrow> string) \<Rightarrow> string \<Rightarrow> nat \<times> failure list \<times> graph
     \<Rightarrow> string \<times> (string \<times> pyval) list \<times> rat \<Rightarrow> nat \<times> failure list \<times> graph" where
  "enrichment_edge str_of ct_block_group st p =
     (case st of (success_count, failed_instances, g) \<Rightarrow>
        case p of (enrichment_type, combination, source_value) \<Rightarrow>
          (case create_relationship g
                  ''BlockGroup'' [(''ct_block_group'', VStr ct_block_group)] [''ct_block_group'']
                  enrichment_type combination (map fst combination)
                  ''HAS_ENRICHMENT''
                  (Some [(''source_value'', VStr (str_of (VFloat source_value)))]) of
             (_, g') \<Rightarrow> (Suc success_count, failed_instances, g')))"

text \<open>The body of the loop over the rows (lines 425 to 481).\<close>

definition enrichment_row ::
  "(pyval \<Rightarrow> string) \<Rightarrow> arith \<Rightarrow> nat \<times> failure list \<times> graph \<Rightarrow> row
     \<Rightarrow> nat \<times> failure list \<times> graph" where
  "enrichment_row str_of ar st r =
     (let ct_block_group = ct_block_group_of str_of r in
      case enrichments ar r of
        Inl e \<Rightarrow>
          (case st of (success_count, failed_instances, g) \<Rightarrow>
             (success_count, failed_instances @ [([(''block_group'', VStr ct_block_group)], e)], g))
      | Inr es \<Rightarrow> foldl (enrichment_edge str_of ct_block_group) st (enrichment_pairs es))"

definition create_enrichment_relationships ::
  "(pyval \<Rightarrow> string) \<Rightarrow> arith \<Rightarrow> graph \<Rightarrow> row list \<Rightarrow> nat \<times> failure list \<times> graph" where
  "create_enrichment_relationships str_of ar g df =
     foldl (enrichment_row str_of ar) (0, [], g) df"

text \<open>
  The (metric, bucket) pairs the classifier produces for a row, each with its source
  value; and the nodes the end pattern of the call for a pair binds (the label is the
  enrichment type, the properties are those of the combination).
\<close>

definition classifier_pairs ::
  "arith \<Rightarrow> row \<Rightarrow> (string \<times> (string \<times> pyval) list \<times> rat) list" where
  "classifier_pairs ar r =
     (case enrichments ar r of Inl e \<Rightarrow> [] | Inr es \<Rightarrow> enrichment_pairs es)"

definition pair_binds :: "node \<Rightarrow> string \<times> (string \<times> pyval) list \<times> rat \<Rightarrow> bool" where
  "pair_binds c p =
     (node_label c = fst p
      \<and> list_all (\<lambda>k. cy_eq (dict_get (node_props c) k) (dict_get (fst (snd p)) k))
           (map fst (fst (snd p))))"

section \<open>The business builder (etl/businesses.py)\<close>

text \<open>
  A place returned by the search service.  The three optional fields are \<open>None\<close> when
  \<open>hasattr\<close> is false.
\<close>

record business =
  business_id :: string
  display_name :: string
  latitude :: rat
  longitude :: rat
  formatted_address :: "pyval option"
  rating :: "pyval option"
  price_level :: "pyval option"

definition business_properties :: "string \<Rightarrow> business \<Rightarrow> (string \<times> pyval) list" where
  "business_properties business_type b =
     [(''business_id'', VStr (business_id b)),
      (''business_name'', VStr (display_name b)),
      (''business_type'', VStr business_type),
      (''latitude'', VFloat (latitude b)),
      (''longitude'', VFloat (longitude b))]
     @ (case formatted_address b of None \<Rightarrow> [] | Some a \<Rightarrow> [(''address'', a)])
     @ (case rating b of None \<Rightarrow> [] | Some x \<Rightarrow> [(''rating'', x)])
     @ (case price_level b of None \<Rightarrow> [] | Some x \<Rightarrow> [(''price_level'', x)])"

text \<open>
  \<open>get_business_zipcode\<close>: the rows of
  \<^verbatim>\<open>MATCH (bg:BlockGroup)-[:IS_WITHIN]->(z:Zipcode) WHERE bg.ct_block_group = '...'\<close>
  are scanned for the first polygon that contains the point; an exception ends the scan
  with \<open>None\<close>.
\<close>

definition is_within_zipcodes :: "graph \<Rightarrow> string \<Rightarrow> (pyval \<times> pyval) list" where
  "is_within_zipcodes g ct_block_group =
     [(dict_get (node_props z) ''zipcode_number'', dict_get (node_props z) ''wkt'').
        r \<leftarrow> rels g, rel_type r = ''IS_WITHIN'',
        bg \<leftarrow> nodes g, node_id bg = rel_start r, node_label bg = ''BlockGroup'',
        cy_eq (dict_get (node_props bg) ''ct_block_group'') (VStr ct_block_group),
        z \<leftarrow> nodes g, node_id z = rel_end r, node_label z = ''Zipcode'']"

fun first_containing :: "'g shapely \<Rightarrow> rat \<times> rat \<Rightarrow> (pyval \<times> pyval) list \<Rightarrow> pyval option" where
  "first_containing sh point [] = None"
| "first_containing sh point ((zipcode_number, zipcode_wkt) # rest) =
     (case loads sh zipcode_wkt of
        Inl e \<Rightarrow> None
      | Inr polygon \<Rightarrow>
          if contains_point sh polygon point then Some zipcode_number
          else first_containing sh point rest)"

definition get_business_zipcode ::
  "'g shapely \<Rightarrow> graph \<Rightarrow> string \<Rightarrow> rat \<Rightarrow> rat \<Rightarrow> pyval option" where
  "get_business_zipcode sh g ct_block_group lon lat =
     first_containing sh (lon, lat) (is_within_zipcodes g ct_block_group)"

text \<open>The body of the inner loop of \<open>create_business_nodes\<close> (lines 177 to 258).\<close>

definition business_step ::
  "'g shapely \<Rightarrow> pyval \<Rightarrow> string \<Rightarrow> string \<Rightarrow> nat \<times> failure list \<times> graph \<Rightarrow> business
     \<Rightarrow> nat \<times> failure list \<times> graph" where
  "business_step sh constraints ct_block_group business_type st b =
     (case st of (business_count, failed_instances, g) \<Rightarrow>
        let props = business_properties business_type b;
            failed = (\<lambda>e. failed_instances @ [([(''business'', VStr (display_name b))], e)])
        in case validate_data \<lparr>label = ''Business'', properties = props\<rparr> constraints False of
             Inl e \<Rightarrow> (business_count, failed e, g)
           | Inr _ \<Rightarrow>
              (case create_node g ''Business'' props [''business_id''] of
                 (None, g1) \<Rightarrow> (business_count, failed (Failure ''Failed to create Business node''), g1)
               | (Some business_node, g1) \<Rightarrow>
                   if \<not> node_truthy business_node
                   then (business_count, failed (Failure ''Failed to create Business node''), g1)
                   else
                     (case add_node_to_spatial_layer g1 business_node ''business_layer'' of
                        (ok, g2) \<Rightarrow>
                          if \<not> ok
                          then (business_count,
                                failed (Failure ''Failed to add Business node to spatial layer''), g2)
                          else
                            let g3 = snd (create_relationship g2
                                       ''Business'' [(''business_id'', VStr (business_id b))] [''business_id'']
                                       ''BlockGroup'' [(''ct_block_group'', VStr ct_block_group)]
                                       [''ct_block_group'']
                                       ''LOCATED_IN'' None)
                            in (case get_business_zipcode sh g3 ct_block_group
                                       (longitude b) (latitude b) of
                                  None \<Rightarrow> (Suc business_count, failed_instances, g3)
                                | Some z \<Rightarrow>
                                    if truthy z
                                    then (Suc business_count, failed_instances,
                                          snd (create_relationship g3
                                            ''Business'' [(''business_id'', VStr (business_id b))]
                                            [''business_id'']
                                            ''Zipcode'' [(''zipcode_number'', z)] [''zipcode_number'']
                                            ''LOCATED_IN'' None))
                                    else (Suc business_count, failed_instances, g3)))))"

definition create_business_nodes ::
  "'g shapely \<Rightarrow> graph \<Rightarrow> (string \<times> business list) list \<Rightarrow> string \<Rightarrow> pyval
     \<Rightarrow> nat \<times> failure list \<times> graph" where
  "create_business_nodes sh g bg_businesses ct_block_group constraints =
     foldl (\<lambda>st tb. foldl (business_step sh constraints ct_block_group (fst tb)) st (snd tb))
       (0, [], g) bg_businesses"

text \<open>
  The loop of \<open>populate_businesses\<close> over the block groups (lines 309 to 356).  The
  search service is a parameter: the places it returns for a block group and a business
  type.  Line 348 rebinds both accumulators to the result for the current block group;
  lines 355 and 356 then add the count to itself and extend the list by itself.
\<close>

definition google_business_types :: "string list" where
  "google_business_types = [''grocery_store'', ''fast_food_restaurant'', ''bakery'']"

definition businesses_in_block_group ::
  "'g shapely \<Rightarrow> (string \<Rightarrow> string \<Rightarrow> business list) \<Rightarrow> string \<Rightarrow> 'g
     \<Rightarrow> (string \<times> business list) list" where
  "businesses_in_block_group sh places ct_block_group polygon =
     map (\<lambda>business_type.
            (business_type,
             filter (\<lambda>place. contains_point sh polygon (longitude place, latitude place))
               (places ct_block_group business_type)))
       google_business_types"

definition populate_step ::
  "'g shapely \<Rightarrow> pyval \<Rightarrow> (string \<Rightarrow> string \<Rightarrow> business list)
     \<Rightarrow> nat \<times> failure list \<times> graph \<Rightarrow> string \<times> 'g \<Rightarrow> nat \<times> failure list \<times> graph" where
  "populate_step sh constraints places st bg =
     (case st of (business_count, failed_instances, g) \<Rightarrow>
        case create_business_nodes sh g
               (businesses_in_block_group sh places (fst bg) (snd bg)) (fst bg) constraints of
          (business_count', failed_instances', g') \<Rightarrow>
            (business_count' + business_count', failed_instances' @ failed_instances', g'))"

definition populate_businesses ::
  "'g shapely \<Rightarrow> graph \<Rightarrow> pyval \<Rightarrow> (string \<Rightarrow> string \<Rightarrow> business list) \<Rightarrow> (string \<times> 'g) list
     \<Rightarrow> nat \<times> failure list \<times> graph" where
  "populate_businesses sh g constraints places block_groups =
     foldl (populate_step sh constraints places) (0, [], init_layer g ''business_layer'') block_groups"

section \<open>Example schema documents\<close>

text \<open>
  Two schema documents of the shape the loader returns
  (\<open>nodes\<close>, then the label, then \<open>properties\<close>, then the property's constraints):
  a \<open>Zipcode\<close> whose key is a required string, and a \<open>Business\<close> whose rating is a
  float in the range 0 to 5.
\<close>

definition zipcode_schema :: pyval where
  "zipcode_schema =
     VDict [(''nodes'', VDict [(''Zipcode'', VDict [(''properties'',
       VDict [(''zipcode_number'', VDict [(''type'', VStr ''STRING''), (''exists'', VBool True)]),
              (''wkt'', VDict [(''type'', VStr ''STRING'')])])])])]"

definition rating_schema :: pyval where
  "rating_schema =
     VDict [(''nodes'', VDict [(''Business'', VDict [(''properties'',
       VDict [(''rating'', VDict [(''type'', VStr ''FLOAT''),
                (''range'', VDict [(''min'', VInt 0), (''max'', VInt 5)])])])])])]"

section \<open>An example store and a toy geometry\<close>

text \<open>
  A store with a block group, a zipcode and a city, one \<open>IS_WITHIN\<close> relationship from
  the city to the zipcode, and the zipcode layer.
\<close>

definition example_store :: graph where
  "example_store =
     \<lparr>nodes = [\<lparr>node_id = 1, node_label = ''BlockGroup'',
                 node_props = [(''ct_block_group'', VStr ''100''), (''wkt'', VStr ''BIG'')]\<rparr>,
               \<lparr>node_id = 2, node_label = ''Zipcode'',
                 node_props = [(''zipcode_number'', VStr ''92101''), (''wkt'', VStr ''SMALL'')]\<rparr>,
               \<lparr>node_id = 3, node_label = ''City'', node_props = [(''city_id'', VStr ''7'')]\<rparr>],
      rels = [\<lparr>rel_type = ''IS_WITHIN'', rel_start = 3, rel_end = 2,
                rel_props = [(''containment_type'', VStr ''Partial''), (''note'', VStr ''old'')]\<rparr>],
      layers = [(''zipcode_layer'', [2])]\<rparr>"

text \<open>
  A toy geometry for the examples: a shape is known by its area alone, the intersection
  of two shapes is the smaller one, and every shape contains every point.  The arithmetic
  of the examples is the exact result rounded to the nearest double.
\<close>

definition double_arith :: arith where
  "double_arith = \<lparr>num_add = (\<lambda>a b. double (a + b)), num_div = (\<lambda>a b. double (a / b))\<rparr>"

definition toy_shapely :: "rat shapely" where
  "toy_shapely =
     \<lparr>loads = (\<lambda>w. case w of
                  VStr s \<Rightarrow> Inr (if s = ''POLYGON EMPTY'' then 0 else if s = ''SMALL'' then 2 else 4)
                | _ \<Rightarrow> Inl GeometryError),
      intersection = (\<lambda>x y. Inr (min x y)),
      area = (\<lambda>x. x),
      contains_point = (\<lambda>x p. True),
      quotient = (\<lambda>a b. double (a / b))\<rparr>"

definition example_record :: intersection_record where
  "example_record =
     \<lparr>block_group = VStr ''100'', bg_wkt = VStr ''BIG'',
      zipcode = VStr ''92101'', z_wkt = VStr ''SMALL''\<rparr>"

definition empty_record :: intersection_record where
  "empty_record =
     \<lparr>block_group = VStr ''100'', bg_wkt = VStr ''POLYGON EMPTY'',
      zipcode = VStr ''92101'', z_wkt = VStr ''SMALL''\<rparr>"

text \<open>
  A schema document for \<open>Business\<close>, a place, a search service that knows one bakery in
  block group \<open>100\<close> and nothing else, and the three source tables of the zipcode builder
  with the zipcode \<open>92101\<close> in each.
\<close>

definition business_schema :: pyval where
  "business_schema =
     VDict [(''nodes'', VDict [(''Business'', VDict [(''properties'',
       VDict [(''business_id'', VDict [(''type'', VStr ''STRING''), (''exists'', VBool True)]),
              (''business_name'', VDict [(''type'', VStr ''STRING''), (''exists'', VBool True)]),
              (''business_type'', VDict [(''type'', VStr ''STRING''), (''exists'', VBool True)]),
              (''latitude'', VDict [(''type'', VStr ''FLOAT''), (''exists'', VBool True)]),
              (''longitude'', VDict [(''type'', VStr ''FLOAT''), (''exists'', VBool True)]),
              (''address'', VDict [(''type'', VStr ''STRING'')]),
              (''rating'', VDict [(''type'', VStr ''FLOAT'')]),
              (''price_level'', VDict [(''type'', VStr ''INTEGER'')])])])])]"

definition example_business :: business where
  "example_business =
     \<lparr>business_id = ''b1'', display_name = ''Bakery One'', latitude = 1, longitude = 2,
      formatted_address = None, rating = None, price_level = None\<rparr>"

definition example_places :: "string \<Rightarrow> string \<Rightarrow> business list" where
  "example_places ct_block_group business_type =
     (if ct_block_group = ''100'' \<and> business_type = ''bakery'' then [example_business] else [])"






text \<open>
  A prepared row of tract 100, block group 1, with 500 inhabitants and every other
  column zero; the interpreter's \<open>str\<close> on the numbers that occur in the example; and
  a store with the block group of that row and the category node \<open>TotalPopulation\<close>
  \<open>LOW\<close>.
\<close>

definition example_row :: row where
  "example_row c =
     (if c = ''totpop_cy'' then 500 else if c = ''tractce'' then 100
      else if c = ''blkgrpce'' then 1 else 0)"

definition example_str :: "pyval \<Rightarrow> string" where
  "example_str v =
     (case v of
        VInt n \<Rightarrow> (if n = 100 then ''100'' else ''0'')
      | VFloat x \<Rightarrow> (if x = 500 then ''500.0'' else if x = 1 then ''1.0''
                    else if x = lit_0_10 then ''0.1'' else ''0.0'')
      | _ \<Rightarrow> ''?'')"

definition enrichment_store :: graph where
  "enrichment_store =
     \<lparr>nodes = [\<lparr>node_id = 1, node_label = ''BlockGroup'',
                 node_props = [(''ct_block_group'', VStr ''1001.0'')]\<rparr>,
               \<lparr>node_id = 2, node_label = ''TotalPopulation'',
                 node_props = [(''level'', VStr ''LOW'')]\<rparr>],
      rels = [], layers = []\<rparr>"

text \<open>
  A row of the same block group with 30 boys and 20 girls under five among its 500
  inhabitants, and a store with the block group and the category node \<open>AgeGroup\<close>
  \<open>0-4\<close> \<open>MODERATE\<close>: the share of the age group is the float 0.1, which is not
  below the literal \<open>0.10\<close>.
\<close>

definition share_row :: row where
  "share_row c =
     (if c = ''totpop_cy'' then 500 else if c = ''male0'' then 30 else if c = ''fem0'' then 20
      else if c = ''tractce'' then 100 else if c = ''blkgrpce'' then 1 else 0)"

definition share_store :: graph where
  "share_store =
     \<lparr>nodes = [\<lparr>node_id = 1, node_label = ''BlockGroup'',
                 node_props = [(''ct_block_group'', VStr ''1001.0'')]\<rparr>,
               \<lparr>node_id = 2, node_label = ''AgeGroup'',
                 node_props = [(''group'', VStr ''0-4''),
                               (''representation'', VStr ''MODERATE'')]\<rparr>],
      rels = [], layers = []\<rparr>"

section \<open>Properties of the validator\<close>

lemmas validation_defs =
  validate_data_def validate_property_def check_type_def check_enum_def check_range_def
  validator_for_def VALIDATORS_def bindE_def dict_get_def py_gt_def

text \<open>
  C10.  The run-time type checks overlap: the \<open>FLOAT\<close> check accepts every integer, and
  the \<open>INTEGER\<close> and \<open>FLOAT\<close> checks accept both booleans.  So the type validation of
  \<open>validate_property\<close> passes a boolean given for a property declared \<open>INTEGER\<close> or
  \<open>FLOAT\<close>, and an integer given for a property declared \<open>FLOAT\<close>.
\<close>

theorem type_checks_overlap:
  "validator_for ''FLOAT'' (VInt n) = Inr True
   \<and> validator_for ''INTEGER'' (VBool b) = Inr True
   \<and> validator_for ''FLOAT'' (VBool b) = Inr True
   \<and> check_type p (VStr ''INTEGER'') (VBool b) = Inr ()
   \<and> check_type p (VStr ''FLOAT'') (VBool b) = Inr ()
   \<and> check_type p (VStr ''FLOAT'') (VInt n) = Inr ()
   \<and> validate_property \<lparr>label = l, properties = [(p, VBool b)]\<rparr> p
         (VDict [(''type'', VStr ''INTEGER'')]) = Inr ()
   \<and> validate_property \<lparr>label = l, properties = [(p, VBool b)]\<rparr> p
         (VDict [(''type'', VStr ''FLOAT'')]) = Inr ()
   \<and> validate_property \<lparr>label = l, properties = [(p, VInt n)]\<rparr> p
         (VDict [(''type'', VStr ''FLOAT'')]) = Inr ()"
  by (simp add: validation_defs char_upper_def)

text \<open>
  \<open>validate_property\<close>, handed a declared property and its constraints, rejects a
  required property that is absent.
\<close>

lemma validate_property_requires:
  "validate_property \<lparr>label = l, properties = []\<rparr> ''zipcode_number''
     (VDict [(''type'', VStr ''STRING''), (''exists'', VBool True)])
   = Inl (ValueError ''must exist but is missing: zipcode_number'')"
  by (simp add: validation_defs)

text \<open>The range check of \<open>validate_property\<close> is inclusive at both ends.\<close>

lemma validate_property_range_inclusive:
  "validate_property \<lparr>label = l, properties = [(''rating'', VInt x)]\<rparr> ''rating''
     (VDict [(''type'', VStr ''FLOAT''), (''range'', VDict [(''min'', VInt 0), (''max'', VInt 5)])])
   = (if x < 0 then Inl (ValueError ''must be greater than or equal to min: rating'')
      else if 5 < x then Inl (ValueError ''must be less than or equal to max: rating'')
      else Inr ())"
  by (simp add: validation_defs char_upper_def)

text \<open>
  \<open>validate_data\<close> reads none of the declared constraints.  When the label's entry is
  \<open>{"properties": {...}}\<close> and no declared property is itself named \<open>properties\<close>,
  \<open>exists\<close>, \<open>type\<close>, \<open>enum\<close> or \<open>range\<close>, every entity without an undeclared
  property passes, whatever the values of its properties and whichever are absent.
\<close>

lemma validate_data_ignores_constraints:
  assumes "map_of doc ''nodes'' = Some (VDict table)"
    and "map_of table (label d) = Some (VDict [(''properties'', VDict props)])"
    and "set (map fst (properties d)) \<subseteq> set (map fst props)"
    and "''properties'' \<notin> set (map fst props)"
    and "''exists'' \<notin> set (map fst props)" and "''type'' \<notin> set (map fst props)"
    and "''enum'' \<notin> set (map fst props)" and "''range'' \<notin> set (map fst props)"
  shows "validate_data d (VDict doc) False = Inr ()"
proof -
  have none: "k \<notin> set (map fst props) \<Longrightarrow> dict_get props k = VNone" for k
    by (simp add: dict_get_def map_of_eq_None_iff[THEN iffD2] split: option.splits)
  have nodata: "dict_get (properties d) ''properties'' = VNone"
  proof -
    have "''properties'' \<notin> set (map fst (properties d))"
      using assms(3,4) by auto
    then have "map_of (properties d) ''properties'' = None"
      by (simp add: map_of_eq_None_iff)
    then show ?thesis by (simp add: dict_get_def)
  qed
  have extra: "filter (\<lambda>k. k \<notin> set (map fst props)) (map fst (properties d)) = []"
    using assms(3) by (auto simp: filter_empty_conv)
  have vp: "validate_property d ''properties'' (VDict props) = Inr ()"
    using none assms(5-8) nodata
    by (simp add: validate_property_def bindE_def)
  show ?thesis
    using assms(1,2) extra none[OF assms(5)] vp
    by (simp add: validate_data_def bindE_def dict_get_def)
qed

text \<open>
  C2.  Validation of an entity of a declared label should fail whenever a property
  declared as required is absent.  The code does not: a \<open>Zipcode\<close> whose required
  \<open>zipcode_number\<close> is absent passes \<open>validate_data\<close>.  The comprehension and the loop
  run over the items of the label's entry (the single key \<open>properties\<close>), not over the
  declared properties, so the \<open>exists\<close> flag of \<open>zipcode_number\<close> is never read.
\<close>

theorem validate_data_accepts_missing_required:
  "validate_data \<lparr>label = ''Zipcode'', properties = []\<rparr> zipcode_schema False = Inr ()"
  by (simp add: validation_defs zipcode_schema_def)

text \<open>
  C6.  Validation of an entity should accept a value equal to either bound of a declared
  range and reject a value below the minimum or above the maximum.  The code does not
  reject: a \<open>Business\<close> whose \<open>rating\<close> lies below the declared minimum, or above the
  declared maximum, passes \<open>validate_data\<close>, for the same reason as before: the range of
  \<open>rating\<close> is never read.
\<close>

theorem validate_data_accepts_out_of_range:
  "validate_data \<lparr>label = ''Business'', properties = [(''rating'', VInt (- 1))]\<rparr>
     rating_schema False = Inr ()
   \<and> validate_data \<lparr>label = ''Business'', properties = [(''rating'', VInt 6)]\<rparr>
     rating_schema False = Inr ()"
  by (simp add: validation_defs rating_schema_def)

section \<open>Properties of the enrichment classifier\<close>

text \<open>
  C3.  For a row whose total population is zero, every age-group bucket and every
  education bucket is \<open>VERY_LOW\<close> with the source value 0.0, and both functions return
  normally: the division by the population is not reached.
\<close>

theorem zero_population_guard:
  assumes "r ''totpop_cy'' = 0"
  shows "determine_age_group_representations ar r =
           Inr ([[(''group'', VStr ''0-4''), (''representation'', VStr ''VERY_LOW'')],
                 [(''group'', VStr ''5-14''), (''representation'', VStr ''VERY_LOW'')],
                 [(''group'', VStr ''15-24''), (''representation'', VStr ''VERY_LOW'')],
                 [(''group'', VStr ''25-44''), (''representation'', VStr ''VERY_LOW'')],
                 [(''group'', VStr ''45-64''), (''representation'', VStr ''VERY_LOW'')],
                 [(''group'', VStr ''65+''), (''representation'', VStr ''VERY_LOW'')]],
                [0, 0, 0, 0, 0, 0])
       \<and> determine_education_level ar r =
           Inr ([[(''level'', VStr ''BASIC''), (''representation'', VStr ''VERY_LOW'')],
                 [(''level'', VStr ''SECONDARY''), (''representation'', VStr ''VERY_LOW'')],
                 [(''level'', VStr ''HIGHER''), (''representation'', VStr ''VERY_LOW'')]],
                [0, 0, 0])"
  using assms
  by (simp add: determine_age_group_representations_def determine_education_level_def
      zero_representations_def age_group_aggregations_def education_levels_def)

text \<open>A row with no population, although two of its age columns are not zero.\<close>

theorem zero_population_guard_witness:
  "(\<lambda>c. if c = ''male0'' \<or> c = ''BASIC'' then 3 else 0 :: rat) ''totpop_cy'' = 0
   \<and> determine_age_group_representations double_arith (\<lambda>c. if c = ''male0'' \<or> c = ''BASIC'' then 3 else 0) =
           Inr ([[(''group'', VStr ''0-4''), (''representation'', VStr ''VERY_LOW'')],
                 [(''group'', VStr ''5-14''), (''representation'', VStr ''VERY_LOW'')],
                 [(''group'', VStr ''15-24''), (''representation'', VStr ''VERY_LOW'')],
                 [(''group'', VStr ''25-44''), (''representation'', VStr ''VERY_LOW'')],
                 [(''group'', VStr ''45-64''), (''representation'', VStr ''VERY_LOW'')],
                 [(''group'', VStr ''65+''), (''representation'', VStr ''VERY_LOW'')]],
                [0, 0, 0, 0, 0, 0])
   \<and> determine_education_level double_arith (\<lambda>c. if c = ''male0'' \<or> c = ''BASIC'' then 3 else 0) =
           Inr ([[(''level'', VStr ''BASIC''), (''representation'', VStr ''VERY_LOW'')],
                 [(''level'', VStr ''SECONDARY''), (''representation'', VStr ''VERY_LOW'')],
                 [(''level'', VStr ''HIGHER''), (''representation'', VStr ''VERY_LOW'')]],
                [0, 0, 0])"
  using zero_population_guard [where r = "\<lambda>c. if c = ''male0'' \<or> c = ''BASIC'' then 3 else 0"
      and ar = double_arith]
  by simp

section \<open>Properties of the relationship upsert\<close>

lemma rel_between_upd [simp]:
  "rel_between t a b (r\<lparr>rel_props := st\<rparr>) = rel_between t a b r"
  by (simp add: rel_between_def)

lemma list_ex_filter: "list_ex P xs \<longleftrightarrow> filter P xs \<noteq> []"
  by (induction xs) auto

lemma merge_rel_same:
  "filter (rel_between t a b) (rels (merge_rel t st g (a, b))) =
     (if list_ex (rel_between t a b) (rels g)
      then map (\<lambda>r. r\<lparr>rel_props := st\<rparr>) (filter (rel_between t a b) (rels g))
      else [\<lparr>rel_type = t, rel_start = a, rel_end = b, rel_props = st\<rparr>])"
proof (cases "list_ex (rel_between t a b) (rels g)")
  case True
  have "filter (rel_between t a b)
          (map (\<lambda>r. if rel_between t a b r then r\<lparr>rel_props := st\<rparr> else r) xs)
        = map (\<lambda>r. r\<lparr>rel_props := st\<rparr>) (filter (rel_between t a b) xs)" for xs
    by (induction xs) auto
  with True show ?thesis by (simp add: merge_rel_def)
next
  case False
  then have "filter (rel_between t a b) (rels g) = []"
    by (simp add: list_ex_filter)
  with False show ?thesis
    by (simp add: merge_rel_def rel_between_def)
qed

lemma merge_rel_other:
  assumes "(t', a', b') \<noteq> (t, a, b)"
  shows "filter (rel_between t' a' b') (rels (merge_rel t st g (a, b)))
         = filter (rel_between t' a' b') (rels g)"
proof -
  have "filter (rel_between t' a' b')
          (map (\<lambda>r. if rel_between t a b r then r\<lparr>rel_props := st\<rparr> else r) xs)
        = filter (rel_between t' a' b') xs" for xs
    using assms by (induction xs) (auto simp: rel_between_def)
  with assms show ?thesis
    by (auto simp: merge_rel_def rel_between_def)
qed

lemma foldl_merge_rel_filter:
  "filter (rel_between t' a b) (rels (foldl (merge_rel t st) g bound)) =
     (if t' = t \<and> (a, b) \<in> set bound
      then (if list_ex (rel_between t a b) (rels g)
            then map (\<lambda>r. r\<lparr>rel_props := st\<rparr>) (filter (rel_between t a b) (rels g))
            else [\<lparr>rel_type = t, rel_start = a, rel_end = b, rel_props = st\<rparr>])
      else filter (rel_between t' a b) (rels g))"
proof (induction bound arbitrary: g)
  case Nil
  then show ?case by simp
next
  case (Cons p ps)
  obtain pa pb where p: "p = (pa, pb)" by (cases p)
  let ?g1 = "merge_rel t st g (pa, pb)"
  let ?X = "if list_ex (rel_between t a b) (rels g)
            then map (\<lambda>r. r\<lparr>rel_props := st\<rparr>) (filter (rel_between t a b) (rels g))
            else [\<lparr>rel_type = t, rel_start = a, rel_end = b, rel_props = st\<rparr>]"
  show ?case
  proof (cases "t' = t \<and> pa = a \<and> pb = b")
    case True
    have same: "filter (rel_between t a b) (rels ?g1) = ?X"
      using True by (simp add: merge_rel_same)
    have nonempty: "?X \<noteq> []"
      by (simp add: list_ex_filter)
    have ex1: "list_ex (rel_between t a b) (rels ?g1)"
      using same nonempty by (simp only: list_ex_filter) simp
    have idem: "map (\<lambda>r. r\<lparr>rel_props := st\<rparr>) ?X = ?X"
      by simp
    have "filter (rel_between t a b) (rels (foldl (merge_rel t st) ?g1 ps)) = ?X"
    proof (cases "(a, b) \<in> set ps")
      case in_ps: True
      then have "filter (rel_between t a b) (rels (foldl (merge_rel t st) ?g1 ps))
                 = map (\<lambda>r. r\<lparr>rel_props := st\<rparr>) (filter (rel_between t a b) (rels ?g1))"
        using Cons.IH[of ?g1] True ex1 by simp
      then show ?thesis
        using same idem by simp
    next
      case not_in_ps: False
      then have "filter (rel_between t a b) (rels (foldl (merge_rel t st) ?g1 ps))
                 = filter (rel_between t a b) (rels ?g1)"
        using Cons.IH[of ?g1] True by simp
      then show ?thesis
        using same by simp
    qed
    then show ?thesis
      using True p by simp
  next
    case False
    then have "(t', a, b) \<noteq> (t, pa, pb)" by auto
    then have eq: "filter (rel_between t' a b) (rels ?g1) = filter (rel_between t' a b) (rels g)"
      by (rule merge_rel_other)
    have ex: "t' = t \<Longrightarrow> list_ex (rel_between t a b) (rels ?g1) = list_ex (rel_between t a b) (rels g)"
      using eq by (simp add: list_ex_filter)
    show ?thesis
      using Cons.IH[of ?g1] p False eq ex
      by auto
  qed
qed

lemma foldl_merge_rel_nodes [simp]:
  "nodes (foldl (merge_rel t st) g bound) = nodes g"
  by (induction bound arbitrary: g) (auto simp: merge_rel_def)

lemma foldl_merge_rel_layers [simp]:
  "layers (foldl (merge_rel t st) g bound) = layers g"
  by (induction bound arbitrary: g) (auto simp: merge_rel_def)

lemma map_of_dict_set: "map_of (dict_set d k' v) k = (if k = k' then Some v else map_of d k)"
  by (induction d) auto

lemma map_of_dict_del: "map_of (dict_del d k') k = (if k = k' then None else map_of d k)"
  by (induction d) (auto simp: dict_del_def)

lemma map_of_cy_set_merge_other:
  "k \<notin> set (map fst m) \<Longrightarrow> map_of (cy_set_merge old m) k = map_of old k"
  unfolding cy_set_merge_def
  by (induction m arbitrary: old) (auto simp: map_of_dict_set map_of_dict_del)

lemma map_of_cy_set_replace_other:
  "k \<notin> set (map fst m) \<Longrightarrow> map_of (cy_set_replace m) k = None"
  unfolding cy_set_replace_def
  by (induction m) auto

lemma cy_set_replace_id:
  "\<forall>kv \<in> set m. snd kv \<noteq> VNone \<Longrightarrow> cy_set_replace m = m"
  unfolding cy_set_replace_def by (induction m) auto

lemma create_relationship_graph:
  "endpoint_pairs g sl sp sk el ep ek
      (''rel_properties'', VDict (case m of None \<Rightarrow> [] | Some x \<Rightarrow> x)) = Inr bound
   \<Longrightarrow> snd (create_relationship g sl sp sk el ep ek t m)
       = foldl (merge_rel t (cy_set_replace (case m of None \<Rightarrow> [] | Some x \<Rightarrow> x))) g bound"
  by (simp add: create_relationship_def Let_def)

lemma create_relationship_failed:
  "endpoint_pairs g sl sp sk el ep ek
      (''rel_properties'', VDict (case m of None \<Rightarrow> [] | Some x \<Rightarrow> x)) = Inl e
   \<Longrightarrow> create_relationship g sl sp sk el ep ek t m = (False, g)"
  by (simp add: create_relationship_def Let_def)

lemma create_relationship_nodes [simp]:
  "nodes (snd (create_relationship g sl sp sk el ep ek t m)) = nodes g"
  by (cases "endpoint_pairs g sl sp sk el ep ek
      (''rel_properties'', VDict (case m of None \<Rightarrow> [] | Some x \<Rightarrow> x))")
     (simp_all add: create_relationship_failed create_relationship_graph)

lemma create_relationship_layers [simp]:
  "layers (snd (create_relationship g sl sp sk el ep ek t m)) = layers g"
  by (cases "endpoint_pairs g sl sp sk el ep ek
      (''rel_properties'', VDict (case m of None \<Rightarrow> [] | Some x \<Rightarrow> x))")
     (simp_all add: create_relationship_failed create_relationship_graph)

text \<open>The relationships of one type between one pair, after the call.\<close>

lemma create_relationship_between:
  assumes "endpoint_pairs g sl sp sk el ep ek
      (''rel_properties'', VDict (case m of None \<Rightarrow> [] | Some x \<Rightarrow> x)) = Inr bound"
  shows "filter (rel_between t' a b) (rels (snd (create_relationship g sl sp sk el ep ek t m))) =
     (if t' = t \<and> (a, b) \<in> set bound
      then (if list_ex (rel_between t a b) (rels g)
            then map (\<lambda>r. r\<lparr>rel_props := cy_set_replace (case m of None \<Rightarrow> [] | Some x \<Rightarrow> x)\<rparr>)
                   (filter (rel_between t a b) (rels g))
            else [\<lparr>rel_type = t, rel_start = a, rel_end = b,
                   rel_props = cy_set_replace (case m of None \<Rightarrow> [] | Some x \<Rightarrow> x)\<rparr>])
      else filter (rel_between t' a b) (rels g))"
  by (simp only: create_relationship_graph[OF assms] foldl_merge_rel_filter)

lemma create_relationship_between_unbound:
  assumes "endpoint_pairs g sl sp sk el ep ek
      (''rel_properties'', VDict (case m of None \<Rightarrow> [] | Some x \<Rightarrow> x)) = Inl e"
  shows "rels (snd (create_relationship g sl sp sk el ep ek t m)) = rels g"
  by (simp add: create_relationship_failed[OF assms])


lemma create_relationship_at_most_one:
  "length (filter (rel_between t' a b) (rels (snd (create_relationship g sl sp sk el ep ek t m))))
   \<le> max 1 (length (filter (rel_between t' a b) (rels g)))"
proof (cases "endpoint_pairs g sl sp sk el ep ek
      (''rel_properties'', VDict (case m of None \<Rightarrow> [] | Some x \<Rightarrow> x))")
  case (Inl e)
  then show ?thesis
    by (simp add: create_relationship_failed)
next
  case (Inr bound)
  show ?thesis
    by (simp add: create_relationship_between[OF Inr])
qed

text \<open>
  A call creates a relationship of a type between a pair only where there was none: what
  it leaves is as many as before, or one.
\<close>

lemma create_relationship_presence:
  "max 1 (length (filter (rel_between t' a b)
                    (rels (snd (create_relationship g sl sp sk el ep ek t m)))))
   = max 1 (length (filter (rel_between t' a b) (rels g)))"
proof (cases "endpoint_pairs g sl sp sk el ep ek
      (''rel_properties'', VDict (case m of None \<Rightarrow> [] | Some x \<Rightarrow> x))")
  case (Inl e)
  then show ?thesis
    by (simp add: create_relationship_failed)
next
  case (Inr bound)
  show ?thesis
    by (cases "filter (rel_between t a b) (rels g)")
       (auto simp add: create_relationship_between[OF Inr] list_ex_filter)
qed

lemma map_rel_props_upd:
  "map rel_props (map (\<lambda>r. r\<lparr>rel_props := P\<rparr>) xs) = replicate (length xs) P"
  by (induction xs) auto

lemma map_rel_props_upd_comp:
  "map (rel_props \<circ> rel_props_update (\<lambda>_. P)) xs = replicate (length xs) P"
  by (induction xs) auto

lemma update_relationship_between:
  assumes "endpoint_pairs g sl sp sk el ep ek (''new_properties'', VDict m) = Inr bound"
  shows "map rel_props (filter (rel_between t a b)
           (rels (snd (update_relationship_properties g sl sp sk el ep ek t m))))
         = map (\<lambda>r. if (a, b) \<in> set bound then cy_set_merge (rel_props r) m else rel_props r)
             (filter (rel_between t a b) (rels g))"
proof -
  have "map rel_props (filter (rel_between t a b)
          (map (\<lambda>r. if rel_type r = t \<and> (rel_start r, rel_end r) \<in> set bound
                     then r\<lparr>rel_props := cy_set_merge (rel_props r) m\<rparr> else r) xs))
        = map (\<lambda>r. if (a, b) \<in> set bound then cy_set_merge (rel_props r) m else rel_props r)
            (filter (rel_between t a b) xs)" for xs
    by (induction xs) (auto simp: rel_between_def)
  then show ?thesis
    using assms by (simp add: update_relationship_properties_def)
qed

lemmas store_defs =
  endpoint_pairs_def match_nodes_def node_matches_def cy_eq_def dict_union_def dict_get_def
  bindE_def rel_between_def cy_set_replace_def cy_set_merge_def dict_del_def

text \<open>
  C7.  For an endpoint pair the two \<open>MATCH\<close> patterns bind, \<open>create_relationship\<close>
  leaves at least one relationship of the type between the pair and creates one only
  when there was none (between any pair and for any type, the number of relationships
  is afterwards at most the larger of one and what it was).  Every such relationship
  then carries the supplied map as its whole property map (entries whose value is null
  excepted, which the engine does not store): a key absent from the supplied map is
  absent afterwards.  \<open>update_relationship_properties\<close> instead merges the map into the
  property map of each relationship of the type between the pair, so a key absent from
  the supplied map keeps its value.
\<close>

theorem upsert_replaces:
  assumes "endpoint_pairs g sl sp sk el ep ek (''rel_properties'', VDict m) = Inr bound"
    and "(a, b) \<in> set bound"
    and "endpoint_pairs g sl sp sk el ep ek (''new_properties'', VDict m) = Inr bound_u"
    and "(a, b) \<in> set bound_u"
  shows "(\<exists>r \<in> set (rels (snd (create_relationship g sl sp sk el ep ek t (Some m)))).
            rel_between t a b r)
    \<and> length (filter (rel_between t a b)
                (rels (snd (create_relationship g sl sp sk el ep ek t (Some m)))))
        = max 1 (length (filter (rel_between t a b) (rels g)))
    \<and> length (filter (rel_between t' a' b')
                (rels (snd (create_relationship g sl sp sk el ep ek t (Some m)))))
        \<le> max 1 (length (filter (rel_between t' a' b') (rels g)))
    \<and> (\<forall>r \<in> set (rels (snd (create_relationship g sl sp sk el ep ek t (Some m)))).
          rel_between t a b r \<longrightarrow>
            rel_props r = cy_set_replace m
            \<and> (\<forall>k. k \<notin> set (map fst m) \<longrightarrow> map_of (rel_props r) k = None)
            \<and> ((\<forall>kv \<in> set m. snd kv \<noteq> VNone) \<longrightarrow> rel_props r = m))
    \<and> map rel_props (filter (rel_between t a b)
          (rels (snd (update_relationship_properties g sl sp sk el ep ek t m))))
        = map (\<lambda>r. cy_set_merge (rel_props r) m) (filter (rel_between t a b) (rels g))
    \<and> (\<forall>old k. k \<notin> set (map fst m) \<longrightarrow> map_of (cy_set_merge old m) k = map_of old k)"
proof -
  let ?g' = "snd (create_relationship g sl sp sk el ep ek t (Some m))"
  let ?F = "filter (rel_between t a b) (rels ?g')"
  have a1: "endpoint_pairs g sl sp sk el ep ek
      (''rel_properties'', VDict (case Some m of None \<Rightarrow> [] | Some x \<Rightarrow> x)) = Inr bound"
    using assms(1) by simp
  have F: "?F = (if list_ex (rel_between t a b) (rels g)
            then map (\<lambda>r. r\<lparr>rel_props := cy_set_replace m\<rparr>) (filter (rel_between t a b) (rels g))
            else [\<lparr>rel_type = t, rel_start = a, rel_end = b, rel_props = cy_set_replace m\<rparr>])"
    using create_relationship_between[OF a1, of t a b t] assms(2) by simp
  have ne: "?F \<noteq> []"
    unfolding F by (simp add: list_ex_filter)
  then have ex: "\<exists>r \<in> set (rels ?g'). rel_between t a b r"
    by (simp only: filter_empty_conv) blast
  have len: "length ?F = max 1 (length (filter (rel_between t a b) (rels g)))"
    unfolding F by (cases "filter (rel_between t a b) (rels g)") (auto simp: list_ex_filter)
  have props: "rel_props r = cy_set_replace m" if "r \<in> set ?F" for r
    using that unfolding F by (auto split: if_splits)
  have all: "rel_props r = cy_set_replace m" if "r \<in> set (rels ?g')" "rel_between t a b r" for r
    using props[of r] that by simp
  have upd: "map rel_props (filter (rel_between t a b)
          (rels (snd (update_relationship_properties g sl sp sk el ep ek t m))))
        = map (\<lambda>r. cy_set_merge (rel_props r) m) (filter (rel_between t a b) (rels g))"
    using update_relationship_between[OF assms(3), of t a b] assms(4) by simp
  show ?thesis
    using ex len all upd map_of_cy_set_replace_other[of _ m] cy_set_replace_id[of m]
      create_relationship_at_most_one[of t' a' b' g sl sp sk el ep ek t "Some m"]
      map_of_cy_set_merge_other[of _ m]
    by auto
qed

theorem upsert_replaces_witness:
  "endpoint_pairs example_store ''City'' [(''city_id'', VStr ''7'')] [''city_id'']
       ''Zipcode'' [(''zipcode_number'', VStr ''92101'')] [''zipcode_number'']
       (''rel_properties'', VDict [(''containment_type'', VStr ''Full'')]) = Inr [(3, 2)]
   \<and> (3, 2) \<in> set [(3::nat, 2::nat)]
   \<and> endpoint_pairs example_store ''City'' [(''city_id'', VStr ''7'')] [''city_id'']
       ''Zipcode'' [(''zipcode_number'', VStr ''92101'')] [''zipcode_number'']
       (''new_properties'', VDict [(''containment_type'', VStr ''Full'')]) = Inr [(3, 2)]
   \<and> length (filter (rel_between ''IS_WITHIN'' 3 2)
        (rels (snd (create_relationship example_store
           ''City'' [(''city_id'', VStr ''7'')] [''city_id'']
           ''Zipcode'' [(''zipcode_number'', VStr ''92101'')] [''zipcode_number'']
           ''IS_WITHIN'' (Some [(''containment_type'', VStr ''Full'')])))))
      = max 1 (length (filter (rel_between ''IS_WITHIN'' 3 2) (rels example_store)))
   \<and> map rel_props (filter (rel_between ''IS_WITHIN'' 3 2)
        (rels (snd (create_relationship example_store
           ''City'' [(''city_id'', VStr ''7'')] [''city_id'']
           ''Zipcode'' [(''zipcode_number'', VStr ''92101'')] [''zipcode_number'']
           ''IS_WITHIN'' (Some [(''containment_type'', VStr ''Full'')])))))
      = [[(''containment_type'', VStr ''Full'')]]
   \<and> map rel_props (filter (rel_between ''IS_WITHIN'' 3 2)
        (rels (snd (update_relationship_properties example_store
           ''City'' [(''city_id'', VStr ''7'')] [''city_id'']
           ''Zipcode'' [(''zipcode_number'', VStr ''92101'')] [''zipcode_number'']
           ''IS_WITHIN'' [(''containment_type'', VStr ''Full'')]))))
      = [[(''containment_type'', VStr ''Full''), (''note'', VStr ''old'')]]"
proof -
  let ?m = "[(''containment_type'', VStr ''Full'')]"
  have h1: "endpoint_pairs example_store ''City'' [(''city_id'', VStr ''7'')] [''city_id'']
       ''Zipcode'' [(''zipcode_number'', VStr ''92101'')] [''zipcode_number'']
       (''rel_properties'', VDict ?m) = Inr [(3, 2)]"
    by (simp add: example_store_def store_defs)
  have h2: "(3, 2) \<in> set [(3::nat, 2::nat)]"
    by simp
  have h3: "endpoint_pairs example_store ''City'' [(''city_id'', VStr ''7'')] [''city_id'']
       ''Zipcode'' [(''zipcode_number'', VStr ''92101'')] [''zipcode_number'']
       (''new_properties'', VDict ?m) = Inr [(3, 2)]"
    by (simp add: example_store_def store_defs)
  note inst = upsert_replaces [OF h1 h2 h3 h2, of "''IS_WITHIN''" "''IS_WITHIN''" 3 2]
  have before: "filter (rel_between ''IS_WITHIN'' 3 2) (rels example_store) = rels example_store"
    by (simp add: example_store_def rel_between_def)
  have len: "length (filter (rel_between ''IS_WITHIN'' 3 2)
        (rels (snd (create_relationship example_store
           ''City'' [(''city_id'', VStr ''7'')] [''city_id'']
           ''Zipcode'' [(''zipcode_number'', VStr ''92101'')] [''zipcode_number'']
           ''IS_WITHIN'' (Some ?m)))))
      = max 1 (length (filter (rel_between ''IS_WITHIN'' 3 2) (rels example_store)))"
    using inst by blast
  have created: "map rel_props (filter (rel_between ''IS_WITHIN'' 3 2)
        (rels (snd (create_relationship example_store
           ''City'' [(''city_id'', VStr ''7'')] [''city_id'']
           ''Zipcode'' [(''zipcode_number'', VStr ''92101'')] [''zipcode_number'']
           ''IS_WITHIN'' (Some ?m))))) = [?m]"
    by (simp add: create_relationship_def h1 merge_rel_def;
        simp add: example_store_def rel_between_def cy_set_replace_def)
  have merged: "cy_set_merge [(''containment_type'', VStr ''Partial''), (''note'', VStr ''old'')] ?m
                = [(''containment_type'', VStr ''Full''), (''note'', VStr ''old'')]"
    by (simp add: cy_set_merge_def)
  have updated: "map rel_props (filter (rel_between ''IS_WITHIN'' 3 2)
        (rels (snd (update_relationship_properties example_store
           ''City'' [(''city_id'', VStr ''7'')] [''city_id'']
           ''Zipcode'' [(''zipcode_number'', VStr ''92101'')] [''zipcode_number'']
           ''IS_WITHIN'' ?m))))
      = map (\<lambda>r. cy_set_merge (rel_props r) ?m)
          (filter (rel_between ''IS_WITHIN'' 3 2) (rels example_store))"
    using inst by blast
  have updated': "map (\<lambda>r. cy_set_merge (rel_props r) ?m)
          (filter (rel_between ''IS_WITHIN'' 3 2) (rels example_store))
        = [[(''containment_type'', VStr ''Full''), (''note'', VStr ''old'')]]"
    unfolding before by (simp add: example_store_def merged)
  show ?thesis
    using h1 h2 h3 len created updated [unfolded updated'] by blast
qed

section \<open>Properties of the geometric containment routine\<close>

lemma failed_grows:
  "\<exists>more. fst (snd (foldl (intersection_step sh) (n, failed, g) records)) = failed @ more"
proof (induction records arbitrary: n failed g)
  case Nil
  then show ?case by simp
next
  case (Cons x xs)
  obtain n1 f1 g1 where s1: "intersection_step sh (n, failed, g) x = (n1, f1, g1)"
    by (metis prod_cases3)
  have "\<exists>m1. f1 = failed @ m1"
    using s1 by (auto simp: intersection_step_def split: sum.splits prod.splits)
  moreover have "\<exists>m2. fst (snd (foldl (intersection_step sh) (n1, f1, g1) xs)) = f1 @ m2"
    by (rule Cons.IH)
  ultimately show ?case
    using s1 by auto
qed

text \<open>
  C4.  When both geometries parse and the block group's polygon has area zero, the
  division raises \<open>ZeroDivisionError\<close> inside the per-record handler, which catches it:
  the handler leaves the counter and the store as they were and appends the pair with the
  error to the failure list.  The routine then goes on with the records that follow,
  returns \<open>True\<close>, and the pair is in the failure list it reports.
\<close>

theorem zero_area_is_recorded:
  assumes "loads sh (bg_wkt record) = Inr bg_geom"
    and "loads sh (z_wkt record) = Inr z_geom"
    and "intersection sh bg_geom z_geom = Inr common"
    and "area sh bg_geom = 0"
  shows "overlap_ratio_of sh record = Inl ZeroDivisionError
    \<and> intersection_step sh (n, failed, g) record =
        (n, failed @ [([(''block_group'', block_group record), (''zipcode'', zipcode record)],
                       ZeroDivisionError)], g)
    \<and> create_block_group_zipcode_intersection sh g (Inr (before @ record # after)) =
        (case foldl (intersection_step sh) (0, [], g) before of
           (n1, f1, g1) \<Rightarrow>
             (case foldl (intersection_step sh)
                     (n1, f1 @ [([(''block_group'', block_group record),
                                  (''zipcode'', zipcode record)], ZeroDivisionError)], g1) after of
                (n2, f2, g2) \<Rightarrow> (True, n2, f2, g2)))
    \<and> ([(''block_group'', block_group record), (''zipcode'', zipcode record)], ZeroDivisionError)
        \<in> set (fst (snd (snd
             (create_block_group_zipcode_intersection sh g (Inr (before @ record # after))))))"
proof -
  let ?fail = "([(''block_group'', block_group record), (''zipcode'', zipcode record)],
                ZeroDivisionError)"
  have ratio: "overlap_ratio_of sh record = Inl ZeroDivisionError"
    using assms by (simp add: overlap_ratio_of_def bindE_def py_truediv_def)
  have step: "intersection_step sh (n', failed', g') record = (n', failed' @ [?fail], g')"
    for n' failed' g'
    by (simp add: intersection_step_def ratio)
  obtain n1 f1 g1 where pre: "foldl (intersection_step sh) (0, [], g) before = (n1, f1, g1)"
    by (metis prod_cases3)
  obtain n2 f2 g2 where post:
    "foldl (intersection_step sh) (n1, f1 @ [?fail], g1) after = (n2, f2, g2)"
    by (metis prod_cases3)
  have run: "create_block_group_zipcode_intersection sh g (Inr (before @ record # after))
             = (True, n2, f2, g2)"
    by (simp add: create_block_group_zipcode_intersection_def pre step post)
  obtain more where "f2 = (f1 @ [?fail]) @ more"
    using failed_grows[of sh n1 "f1 @ [?fail]" g1 after] post by auto
  then have mem: "?fail \<in> set f2" by simp
  show ?thesis
    using ratio step[of n failed g] run pre post mem by simp
qed

theorem zero_area_is_recorded_witness:
  "loads toy_shapely (bg_wkt empty_record) = Inr 0
   \<and> loads toy_shapely (z_wkt empty_record) = Inr 2
   \<and> intersection toy_shapely 0 2 = Inr 0
   \<and> area toy_shapely 0 = 0
   \<and> intersection_step toy_shapely (0, [], example_store) empty_record =
        (0, [] @ [([(''block_group'', block_group empty_record),
                    (''zipcode'', zipcode empty_record)], ZeroDivisionError)], example_store)
   \<and> ([(''block_group'', block_group empty_record), (''zipcode'', zipcode empty_record)],
       ZeroDivisionError)
        \<in> set (fst (snd (snd
             (create_block_group_zipcode_intersection toy_shapely example_store
                (Inr ([example_record] @ empty_record # [example_record]))))))
   \<and> block_group empty_record = VStr ''100'' \<and> zipcode empty_record = VStr ''92101''"
proof -
  have h1: "loads toy_shapely (bg_wkt empty_record) = Inr 0"
    by (simp add: toy_shapely_def empty_record_def)
  have h2: "loads toy_shapely (z_wkt empty_record) = Inr 2"
    by (simp add: toy_shapely_def empty_record_def)
  have h3: "intersection toy_shapely 0 2 = Inr 0"
    by (simp add: toy_shapely_def)
  have h4: "area toy_shapely 0 = 0"
    by (simp add: toy_shapely_def)
  have keys: "block_group empty_record = VStr ''100''" "zipcode empty_record = VStr ''92101''"
    by (simp_all add: empty_record_def)
  show ?thesis
    using zero_area_is_recorded [OF h1 h2 h3 h4, of 0 "[]" example_store
        "[example_record]" "[example_record]"] h1 h2 h3 h4 keys
    by blast
qed

text \<open>
  The literals have the values of the nearest doubles.  Rounding matters at the
  threshold: the two areas below have an exact quotient above 95/100, and their quotient
  as a double is the literal \<open>0.95\<close>, which is not above itself.
\<close>

lemma float_literals:
  "lit_0_05 = double (5 / 100) \<and> lit_0_10 = double (10 / 100) \<and> lit_0_15 = double (15 / 100)
   \<and> lit_0_20 = double (2 / 10) \<and> lit_0_20 = double (20 / 100) \<and> lit_0_30 = double (30 / 100)
   \<and> lit_0_40 = double (4 / 10) \<and> lit_0_50 = double (50 / 100) \<and> lit_0_60 = double (6 / 10)
   \<and> lit_0_80 = double (8 / 10) \<and> lit_0_95 = double (95 / 100)"
  by code_simp

lemma quotient_rounds_to_threshold:
  "(95 / 100 :: rat) < 8500000000000009 / 8947368421052641
   \<and> quotient toy_shapely 8500000000000009 8947368421052641 = lit_0_95
   \<and> containment_type (quotient toy_shapely 8500000000000009 8947368421052641) = ''Partial''"
  by code_simp







section \<open>Properties of the zipcode builder\<close>

lemma cy_canon_VStr: "cy_canon v = VStr s \<longleftrightarrow> v = VStr s"
  by (cases v) auto

lemma cy_eq_VStr: "cy_eq v (VStr s) \<longleftrightarrow> v = VStr s"
  by (auto simp: cy_eq_def cy_canon_VStr)









lemma init_layer_nodes [simp]: "nodes (init_layer g l) = nodes g"
  by (simp add: init_layer_def)







section \<open>The summary of the business builder\<close>

text \<open>
  The loop body does not read the accumulators: whatever the earlier block groups gave,
  the state after a block group is twice the count and twice the failure list of that
  block group alone.
\<close>

lemma populate_step_forgets:
  "populate_step sh constraints places (n, failed, g) bg
   = populate_step sh constraints places (n', failed', g) bg"
  by (simp add: populate_step_def)

text \<open>
  C9.  The summary of the business builder should be the total over the batch: the sum
  of the counts and the concatenation of the failure lists of all block groups.  It is
  not.  With the search service of the example, block group \<open>100\<close> has one bakery, which
  \<open>create_business_nodes\<close> creates (count 1, no failure), and block group \<open>200\<close> has
  none.  The summary of a run over block group \<open>100\<close> alone reports 2 businesses, and a
  run over \<open>100\<close> then \<open>200\<close> reports 0.  Against a schema without \<open>Business\<close> the
  bakery fails validation: the run over \<open>100\<close> alone reports the one failure twice,
  and the run over \<open>100\<close> then \<open>200\<close> reports no failure.
\<close>

theorem populate_businesses_summary:
  "fst (create_business_nodes toy_shapely (init_layer example_store ''business_layer'')
          (businesses_in_block_group toy_shapely example_places ''100'' 4) ''100''
          business_schema) = 1
   \<and> fst (snd (create_business_nodes toy_shapely (init_layer example_store ''business_layer'')
          (businesses_in_block_group toy_shapely example_places ''100'' 4) ''100''
          business_schema)) = []
   \<and> fst (populate_businesses toy_shapely example_store business_schema example_places
          [(''100'', 4)]) = 2
   \<and> fst (populate_businesses toy_shapely example_store business_schema example_places
          [(''100'', 4), (''200'', 4)]) = 0
   \<and> fst (snd (create_business_nodes toy_shapely (init_layer example_store ''business_layer'')
          (businesses_in_block_group toy_shapely example_places ''100'' 4) ''100''
          zipcode_schema)) =
        [([(''business'', VStr ''Bakery One'')],
          ValueError ''No constraints found for label: Business'')]
   \<and> fst (snd (populate_businesses toy_shapely example_store zipcode_schema example_places
          [(''100'', 4)])) =
        [([(''business'', VStr ''Bakery One'')],
          ValueError ''No constraints found for label: Business''),
         ([(''business'', VStr ''Bakery One'')],
          ValueError ''No constraints found for label: Business'')]
   \<and> fst (snd (populate_businesses toy_shapely example_store zipcode_schema example_places
          [(''100'', 4), (''200'', 4)])) = []"
  by code_simp

section \<open>The edges written by the enrichment builder\<close>

lemma dict_set_keys: "fst ` set (dict_set d k v) = insert k (fst ` set d)"
proof (induction d)
  case Nil
  then show ?case by simp
next
  case (Cons a d)
  then show ?case
    by (cases a) (simp add: insert_commute)
qed

lemma distinct_dict_set:
  "distinct (map fst d) \<Longrightarrow> distinct (map fst (dict_set d k v))"
proof (induction d)
  case Nil
  then show ?case by simp
next
  case (Cons a d)
  then show ?case
    by (cases a) (auto simp: dict_set_keys)
qed

lemma distinct_dict_union:
  "distinct (map fst a) \<Longrightarrow> distinct (map fst (dict_union a b))"
  unfolding dict_union_def
  by (induction b arbitrary: a) (simp_all add: distinct_dict_set)

lemma map_of_dict_union:
  "distinct (map fst b) \<Longrightarrow>
   map_of (dict_union a b) k = (case map_of b k of None \<Rightarrow> map_of a k | Some v \<Rightarrow> Some v)"
  unfolding dict_union_def
proof (induction b arbitrary: a)
  case Nil
  then show ?case by simp
next
  case (Cons x b)
  obtain k' v' where x: "x = (k', v')" by (cases x)
  have nk: "map_of b k' = None"
    using Cons.prems x by (simp add: map_of_eq_None_iff)
  show ?case
    using Cons.IH[of "dict_set a k' v'"] Cons.prems x nk
    by (auto simp: map_of_dict_set split: option.splits)
qed

lemma pick_result:
  "pick d ks = Inr r \<Longrightarrow>
     distinct (map fst r) \<and> (\<forall>k. map_of r k = (if k \<in> set ks then map_of d k else None))"
proof (induction ks arbitrary: r)
  case Nil
  then show ?case by simp
next
  case (Cons k ks)
  from Cons.prems obtain v r' where v: "map_of d k = Some v" and r': "pick d ks = Inr r'"
    and r: "r = dict_union [(k, v)] r'"
    by (auto simp: bindE_def split: option.splits sum.splits)
  have ih: "distinct (map fst r')" "\<And>k'. map_of r' k' = (if k' \<in> set ks then map_of d k' else None)"
    using Cons.IH[OF r'] by auto
  show ?case
    unfolding r
    using ih v by (auto simp: distinct_dict_union map_of_dict_union split: option.splits)
qed

lemma pick_defined:
  "set ks \<subseteq> set (map fst d) \<Longrightarrow> \<exists>r. pick d ks = Inr r"
proof (induction ks)
  case Nil
  then show ?case by simp
next
  case (Cons k ks)
  then obtain r where r: "pick d ks = Inr r" by auto
  from Cons.prems have "k \<in> fst ` set d" by simp
  then obtain v where "map_of d k = Some v"
    by (metis domD dom_map_of_conv_image_fst)
  then show ?case
    using r by (simp add: bindE_def)
qed

text \<open>The parameters of a call whose start side has one key.\<close>

lemma endpoint_pairs_one_key:
  assumes "sk \<notin> set (map fst ep)" and "sk \<noteq> xk" and "xk \<notin> set (map fst ep)"
  shows "endpoint_pairs g sl [(sk, sv)] [sk] el ep (map fst ep) (xk, xv) =
     Inr (List.product
            (map node_id (filter (\<lambda>n. node_label n = sl \<and> cy_eq (dict_get (node_props n) sk) sv)
               (nodes g)))
            (map node_id (filter (\<lambda>n. node_label n = el
                 \<and> list_all (\<lambda>k. cy_eq (dict_get (node_props n) k) (dict_get ep k)) (map fst ep))
               (nodes g))))"
proof -
  obtain r where r: "pick ep (map fst ep) = Inr r"
    using pick_defined[of "map fst ep" ep] by auto
  have rd: "distinct (map fst r)" and rm: "\<And>k. map_of r k = (if k \<in> set (map fst ep) then map_of ep k else None)"
    using pick_result[OF r] by auto
  let ?P = "dict_union (dict_union [(sk, sv)] r) [(xk, xv)]"
  have look: "map_of ?P k = (if k = xk then Some xv
                             else if k \<in> set (map fst ep) then map_of ep k
                             else if k = sk then Some sv else None)" for k
    using rd rm[of k] by (auto simp: map_of_dict_union split: option.splits)
       (metis domIff dom_map_of_conv_image_fst image_eqI option.distinct(1) fst_conv)+
  have ps: "dict_get ?P sk = sv"
    using assms by (simp add: dict_get_def look)
  have pe: "k \<in> set (map fst ep) \<Longrightarrow> dict_get ?P k = dict_get ep k" for k
    using assms by (auto simp: dict_get_def look)
  have m1: "node_matches sl [sk] ?P = (\<lambda>n. node_label n = sl \<and> cy_eq (dict_get (node_props n) sk) sv)"
    by (rule ext) (simp add: node_matches_def ps)
  have m2: "node_matches el (map fst ep) ?P =
              (\<lambda>n. node_label n = el
                 \<and> list_all (\<lambda>k. cy_eq (dict_get (node_props n) k) (dict_get ep k)) (map fst ep))"
    by (rule ext) (auto simp: node_matches_def list_all_iff pe)
  have p1: "pick [(sk, sv)] [sk] = Inr [(sk, sv)]"
    by (simp add: bindE_def dict_union_def)
  show ?thesis
    by (simp only: endpoint_pairs_def p1 r bindE_def sum.case Let_def match_nodes_def m1 m2)
qed


lemma id_in_filter:
  assumes "distinct (map node_id xs)" and "x \<in> set xs"
  shows "node_id x \<in> set (map node_id (filter Q xs)) \<longleftrightarrow> Q x"
proof -
  have inj: "inj_on node_id (set xs)"
    using assms(1) by (simp add: distinct_map)
  show ?thesis
    using assms(2) inj by (auto simp: inj_on_def)
qed

lemma enrichment_edge_counts:
  "fst (enrichment_edge str_of ct (n, failed, g) p) = Suc n
   \<and> fst (snd (enrichment_edge str_of ct (n, failed, g) p)) = failed
   \<and> nodes (snd (snd (enrichment_edge str_of ct (n, failed, g) p))) = nodes g"
proof -
  obtain etype combo v where p: "p = (etype, combo, v)" by (cases p)
  obtain ok g' where cr: "create_relationship g
                  ''BlockGroup'' [(''ct_block_group'', VStr ct)] [''ct_block_group'']
                  etype combo (map fst combo) ''HAS_ENRICHMENT''
                  (Some [(''source_value'', VStr (str_of (VFloat v)))]) = (ok, g')"
    by (cases "create_relationship g
                  ''BlockGroup'' [(''ct_block_group'', VStr ct)] [''ct_block_group'']
                  etype combo (map fst combo) ''HAS_ENRICHMENT''
                  (Some [(''source_value'', VStr (str_of (VFloat v)))])")
  have "nodes g' = nodes g"
    using create_relationship_nodes[of g "''BlockGroup''" "[(''ct_block_group'', VStr ct)]"
        "[''ct_block_group'']" etype combo "map fst combo" "''HAS_ENRICHMENT''"
        "Some [(''source_value'', VStr (str_of (VFloat v)))]"] cr
    by simp
  then show ?thesis
    by (simp add: enrichment_edge_def p cr)
qed

lemma enrichment_edge_between:
  assumes wf: "''ct_block_group'' \<notin> set (map fst combo)" "''rel_properties'' \<notin> set (map fst combo)"
    and bg: "bg \<in> set (nodes g)" "node_label bg = ''BlockGroup''"
            "dict_get (node_props bg) ''ct_block_group'' = VStr ct"
    and c: "c \<in> set (nodes g)"
    and ids: "distinct (map node_id (nodes g))"
  shows "map rel_props (filter (rel_between ''HAS_ENRICHMENT'' (node_id bg) (node_id c))
           (rels (snd (snd (enrichment_edge str_of ct (n, failed, g) (etype, combo, v)))))) =
     (if node_label c = etype
         \<and> list_all (\<lambda>k. cy_eq (dict_get (node_props c) k) (dict_get combo k)) (map fst combo)
      then replicate
             (max 1 (length (filter (rel_between ''HAS_ENRICHMENT'' (node_id bg) (node_id c))
                               (rels g))))
             [(''source_value'', VStr (str_of (VFloat v)))]
      else map rel_props (filter (rel_between ''HAS_ENRICHMENT'' (node_id bg) (node_id c))
                            (rels g)))"
proof -
  let ?m = "[(''source_value'', VStr (str_of (VFloat v)))]"
  let ?A = "\<lambda>n. node_label n = ''BlockGroup''
                \<and> cy_eq (dict_get (node_props n) ''ct_block_group'') (VStr ct)"
  let ?B = "\<lambda>n. node_label n = etype
                \<and> list_all (\<lambda>k. cy_eq (dict_get (node_props n) k) (dict_get combo k)) (map fst combo)"
  let ?bound = "List.product (map node_id (filter ?A (nodes g))) (map node_id (filter ?B (nodes g)))"
  let ?F = "\<lambda>g. filter (rel_between ''HAS_ENRICHMENT'' (node_id bg) (node_id c)) (rels g)"
  let ?call = "create_relationship g
                  ''BlockGroup'' [(''ct_block_group'', VStr ct)] [''ct_block_group'']
                  etype combo (map fst combo) ''HAS_ENRICHMENT'' (Some ?m)"
  have ep: "endpoint_pairs g ''BlockGroup'' [(''ct_block_group'', VStr ct)] [''ct_block_group'']
              etype combo (map fst combo) (''rel_properties'', VDict ?m) = Inr ?bound"
    using wf by (intro endpoint_pairs_one_key) auto
  have ep': "endpoint_pairs g ''BlockGroup'' [(''ct_block_group'', VStr ct)] [''ct_block_group'']
              etype combo (map fst combo)
              (''rel_properties'', VDict (case Some ?m of None \<Rightarrow> [] | Some x \<Rightarrow> x)) = Inr ?bound"
    using ep by simp
  have A: "?A bg"
    using bg by (simp add: cy_eq_VStr)
  have inA: "node_id bg \<in> set (map node_id (filter ?A (nodes g)))"
    using id_in_filter[OF ids bg(1), of ?A] A by simp
  have inB: "node_id c \<in> set (map node_id (filter ?B (nodes g))) \<longleftrightarrow> ?B c"
    by (rule id_in_filter[OF ids c])
  have mem: "(node_id bg, node_id c) \<in> set ?bound \<longleftrightarrow> ?B c"
    using inA inB by simp
  have stored: "cy_set_replace ?m = ?m"
    by (simp add: cy_set_replace_def)
  have step: "snd (snd (enrichment_edge str_of ct (n, failed, g) (etype, combo, v))) = snd ?call"
    by (simp add: enrichment_edge_def split: prod.splits)
  have F: "?F (snd ?call) =
     (if ?B c
      then (if list_ex (rel_between ''HAS_ENRICHMENT'' (node_id bg) (node_id c)) (rels g)
            then map (\<lambda>r. r\<lparr>rel_props := ?m\<rparr>) (?F g)
            else [\<lparr>rel_type = ''HAS_ENRICHMENT'', rel_start = node_id bg, rel_end = node_id c,
                   rel_props = ?m\<rparr>])
      else ?F g)"
    using create_relationship_between[OF ep', of "''HAS_ENRICHMENT''" "node_id bg" "node_id c"
        "''HAS_ENRICHMENT''"] mem stored
    by simp
  show ?thesis
  proof (cases "?B c")
    case True
    show ?thesis
    proof (cases "?F g")
      case Nil
      then have "\<not> list_ex (rel_between ''HAS_ENRICHMENT'' (node_id bg) (node_id c)) (rels g)"
        by (simp add: list_ex_filter)
      then show ?thesis
        unfolding step F using True Nil by simp
    next
      case (Cons x xs)
      then have "list_ex (rel_between ''HAS_ENRICHMENT'' (node_id bg) (node_id c)) (rels g)"
        by (simp add: list_ex_filter)
      then show ?thesis
        unfolding step F using True Cons by (simp add: map_rel_props_upd_comp)
    qed
  next
    case False
    show ?thesis
      by (simp only: step F False if_False)
  qed
qed


lemma enrichment_edges_fold:
  assumes wf: "\<forall>p \<in> set ps. ''ct_block_group'' \<notin> set (map fst (fst (snd p)))
                          \<and> ''rel_properties'' \<notin> set (map fst (fst (snd p)))"
    and bg: "bg \<in> set (nodes g)" "node_label bg = ''BlockGroup''"
            "dict_get (node_props bg) ''ct_block_group'' = VStr ct"
    and c: "c \<in> set (nodes g)"
    and ids: "distinct (map node_id (nodes g))"
    and same: "\<forall>p \<in> set ps. pair_binds c p \<longrightarrow> snd (snd p) = v"
  shows "map rel_props (filter (rel_between ''HAS_ENRICHMENT'' (node_id bg) (node_id c))
           (rels (snd (snd (foldl (enrichment_edge str_of ct) (n, failed, g) ps))))) =
         (if \<exists>p \<in> set ps. pair_binds c p
          then replicate
                 (max 1 (length (filter (rel_between ''HAS_ENRICHMENT'' (node_id bg) (node_id c))
                                   (rels g))))
                 [(''source_value'', VStr (str_of (VFloat v)))]
          else map rel_props (filter (rel_between ''HAS_ENRICHMENT'' (node_id bg) (node_id c))
                                (rels g)))
       \<and> fst (foldl (enrichment_edge str_of ct) (n, failed, g) ps) = n + length ps
       \<and> fst (snd (foldl (enrichment_edge str_of ct) (n, failed, g) ps)) = failed
       \<and> nodes (snd (snd (foldl (enrichment_edge str_of ct) (n, failed, g) ps))) = nodes g"
  using assms
proof (induction ps arbitrary: n g)
  case Nil
  then show ?case by simp
next
  case (Cons p ps)
  let ?F = "\<lambda>g. filter (rel_between ''HAS_ENRICHMENT'' (node_id bg) (node_id c)) (rels g)"
  let ?P = "[(''source_value'', VStr (str_of (VFloat v)))]"
  obtain etype combo w where p: "p = (etype, combo, w)" by (cases p)
  obtain n1 f1 g1 where s1: "enrichment_edge str_of ct (n, failed, g) p = (n1, f1, g1)"
    by (metis prod_cases3)
  have cnt: "n1 = Suc n" "f1 = failed" "nodes g1 = nodes g"
    using enrichment_edge_counts[of str_of ct n failed g p] s1 by simp_all
  have wfp: "''ct_block_group'' \<notin> set (map fst combo)" "''rel_properties'' \<notin> set (map fst combo)"
    using Cons.prems(1) p by auto
  have binds: "pair_binds c p \<longleftrightarrow>
         node_label c = etype
         \<and> list_all (\<lambda>k. cy_eq (dict_get (node_props c) k) (dict_get combo k)) (map fst combo)"
    by (simp add: pair_binds_def p)
  have val: "pair_binds c p \<Longrightarrow> w = v"
    using Cons.prems(7) p by auto
  have M1: "map rel_props (?F g1) =
              (if pair_binds c p then replicate (max 1 (length (?F g))) ?P
               else map rel_props (?F g))"
  proof -
    have g1: "g1 = snd (snd (enrichment_edge str_of ct (n, failed, g) (etype, combo, w)))"
      using s1 p by simp
    have E: "map rel_props (?F g1) =
       (if node_label c = etype
           \<and> list_all (\<lambda>k. cy_eq (dict_get (node_props c) k) (dict_get combo k)) (map fst combo)
        then replicate (max 1 (length (?F g))) [(''source_value'', VStr (str_of (VFloat w)))]
        else map rel_props (?F g))"
      unfolding g1
      by (rule enrichment_edge_between[OF wfp Cons.prems(2-6)])
    show ?thesis
    proof (cases "pair_binds c p")
      case True
      then have "w = v" by (rule val)
      then show ?thesis
        using E True by (simp only: binds[symmetric] if_True)
    next
      case False
      then show ?thesis
        using E by (simp only: binds[symmetric] if_False)
    qed
  qed
  have len1: "length (?F g1) = (if pair_binds c p then max 1 (length (?F g)) else length (?F g))"
    using arg_cong[OF M1, of length] by (simp split: if_splits)
  have IH: "map rel_props (?F (snd (snd (foldl (enrichment_edge str_of ct) (n1, f1, g1) ps)))) =
         (if \<exists>p \<in> set ps. pair_binds c p
          then replicate (max 1 (length (?F g1))) ?P
          else map rel_props (?F g1))
       \<and> fst (foldl (enrichment_edge str_of ct) (n1, f1, g1) ps) = n1 + length ps
       \<and> fst (snd (foldl (enrichment_edge str_of ct) (n1, f1, g1) ps)) = f1
       \<and> nodes (snd (snd (foldl (enrichment_edge str_of ct) (n1, f1, g1) ps))) = nodes g1"
    unfolding cnt(2)
    using Cons.prems cnt(3)
    by (intro Cons.IH) auto
  show ?case
    using IH M1 len1 cnt s1 by (auto split: if_splits)
qed



text \<open>A function that keeps a quantity of the store at every step keeps it over a loop.\<close>

lemma foldl_keeps:
  assumes "\<And>n failed g x. Q (snd (snd (f (n, failed, g) x))) = Q g"
  shows "Q (snd (snd (foldl f (n, failed, g) xs))) = Q g"
proof (induction xs arbitrary: n failed g)
  case Nil
  then show ?case by simp
next
  case (Cons x xs)
  obtain n1 f1 g1 where s1: "f (n, failed, g) x = (n1, f1, g1)"
    by (metis prod_cases3)
  have "Q g1 = Q g"
    using assms[of n failed g x] s1 by simp
  then show ?case
    using Cons.IH[of n1 f1 g1] s1 by simp
qed

lemma enrichment_edge_keeps:
  "(nodes (snd (snd (enrichment_edge str_of ct (n, failed, g) p))),
    max 1 (length (filter (rel_between t a b)
                     (rels (snd (snd (enrichment_edge str_of ct (n, failed, g) p)))))))
   = (nodes g, max 1 (length (filter (rel_between t a b) (rels g))))"
  by (simp add: enrichment_edge_def split_beta create_relationship_presence[simplified])

lemma enrichment_row_keeps:
  "(nodes (snd (snd (enrichment_row str_of ar (n, failed, g) r))),
    max 1 (length (filter (rel_between t a b)
                     (rels (snd (snd (enrichment_row str_of ar (n, failed, g) r)))))))
   = (nodes g, max 1 (length (filter (rel_between t a b) (rels g))))"
proof (cases "enrichments ar r")
  case (Inl e)
  then show ?thesis
    by (simp add: enrichment_row_def)
next
  case (Inr es)
  have "enrichment_row str_of ar (n, failed, g) r
        = foldl (enrichment_edge str_of (ct_block_group_of str_of r)) (n, failed, g)
            (enrichment_pairs es)"
    by (simp add: enrichment_row_def Inr)
  then show ?thesis
    using foldl_keeps[of "\<lambda>g. (nodes g, max 1 (length (filter (rel_between t a b) (rels g))))"
        "enrichment_edge str_of (ct_block_group_of str_of r)" n failed g "enrichment_pairs es",
        OF enrichment_edge_keeps]
    by simp
qed

lemma enrichment_rows_keep:
  "(nodes (snd (snd (foldl (enrichment_row str_of ar) (n, failed, g) rows))),
    max 1 (length (filter (rel_between t a b)
                     (rels (snd (snd (foldl (enrichment_row str_of ar) (n, failed, g) rows)))))))
   = (nodes g, max 1 (length (filter (rel_between t a b) (rels g))))"
  using foldl_keeps[of "\<lambda>g. (nodes g, max 1 (length (filter (rel_between t a b) (rels g))))"
        "enrichment_row str_of ar" n failed g rows, OF enrichment_row_keeps]
  by simp

text \<open>
  The shares the two representation functions record: the quotient of the aggregate by
  the population, or 0.0 when the population is zero; the bucket is the level of that
  share in both cases.
\<close>

lemma representations_total:
  "tot \<noteq> 0 \<Longrightarrow>
   representations level key ar tot aggs =
     Inr (map (\<lambda>a. [(key, VStr (fst a)),
                      (''representation'', VStr (level (num_div ar (snd a) tot)))]) aggs,
          map (\<lambda>a. num_div ar (snd a) tot) aggs)"
  by (induction aggs) (auto simp: bindE_def py_truediv_def)

lemma age_groups_value:
  "determine_age_group_representations ar r =
     Inr (map (\<lambda>a. [(''group'', VStr (fst a)),
                      (''representation'',
                       VStr (age_representation_level
                               (if r ''totpop_cy'' = 0 then 0
                                else num_div ar (snd a) (r ''totpop_cy''))))])
            (age_group_aggregations ar r),
          map (\<lambda>a. if r ''totpop_cy'' = 0 then 0 else num_div ar (snd a) (r ''totpop_cy''))
            (age_group_aggregations ar r))"
proof (cases "r ''totpop_cy'' = 0")
  case True
  have "age_representation_level 0 = ''VERY_LOW''"
    by (simp add: age_representation_level_def lit_0_05_def)
  then show ?thesis
    by (simp add: determine_age_group_representations_def True zero_representations_def)
next
  case False
  then show ?thesis
    by (simp add: determine_age_group_representations_def representations_total Let_def)
qed

lemma education_value:
  "determine_education_level ar r =
     Inr (map (\<lambda>a. [(''level'', VStr (fst a)),
                      (''representation'',
                       VStr (education_representation_level
                               (if r ''totpop_cy'' = 0 then 0
                                else num_div ar (snd a) (r ''totpop_cy''))))])
            (education_levels r),
          map (\<lambda>a. if r ''totpop_cy'' = 0 then 0 else num_div ar (snd a) (r ''totpop_cy''))
            (education_levels r))"
proof (cases "r ''totpop_cy'' = 0")
  case True
  have "education_representation_level 0 = ''VERY_LOW''"
    by (simp add: education_representation_level_def lit_0_05_def)
  then show ?thesis
    by (simp add: determine_education_level_def True zero_representations_def)
next
  case False
  then show ?thesis
    by (simp add: determine_education_level_def representations_total Let_def)
qed

lemma zip_map_map: "zip (map f xs) (map g xs) = map (\<lambda>x. (f x, g x)) xs"
  by (induction xs) auto

lemma classifier_pairs_value:
  "classifier_pairs ar r =
     [(''TotalPopulation'', [(''level'', VStr (population_category (r ''totpop_cy'')))],
       r ''totpop_cy''),
      (''PopulationGrowth'', [(''growth_rate'', VStr (growth_category (r ''popgrwcyfy'')))],
       r ''popgrwcyfy''),
      (''AgeAverage'', [(''group'', VStr (age_average_category (r ''avg_age'')))], r ''avg_age'')]
     @ map (\<lambda>a. let share = (if r ''totpop_cy'' = 0 then 0
                               else num_div ar (snd a) (r ''totpop_cy''))
                 in (''AgeGroup'',
                     [(''group'', VStr (fst a)),
                      (''representation'', VStr (age_representation_level share))],
                     share))
         (age_group_aggregations ar r)
     @ [(''WealthIndex'',
         [(''category'', VStr (wealth_category (r ''normalized_wlthindxcy'')))],
         r ''normalized_wlthindxcy'')]
     @ map (\<lambda>a. let share = (if r ''totpop_cy'' = 0 then 0
                               else num_div ar (snd a) (r ''totpop_cy''))
                 in (''EducationLevel'',
                     [(''level'', VStr (fst a)),
                      (''representation'', VStr (education_representation_level share))],
                     share))
         (education_levels r)
     @ [(''CrimeIndex'', [(''category'', VStr (crime_category (r ''crmcytotc'')))],
         r ''crmcytotc''),
        (''FastFoodSpendingIndex'',
         [(''category'', VStr (spending_category (r ''normalized_fastfoodspending'')))],
         r ''normalized_fastfoodspending'')]"
  by (simp add: classifier_pairs_def enrichments_def age_groups_value education_value bindE_def
      enrichment_pairs_def zip_map_map Let_def
      determine_population_level_def determine_growth_rate_def determine_age_average_def
      determine_wealth_category_def determine_crime_level_def determine_spending_level_def)

lemma enrichment_pairs_shape:
  obtains es c1 c2 c3 c5 c7 c8 l1 l2 l3 l4 l5 l6 v1 v2 v3 v4 v5 v6 m1 m2 m3 w1 w2 w3 where
    "enrichments ar r = Inr es"
    "enrichment_pairs es =
       [(''TotalPopulation'', [(''level'', VStr c1)], r ''totpop_cy''),
        (''PopulationGrowth'', [(''growth_rate'', VStr c2)], r ''popgrwcyfy''),
        (''AgeAverage'', [(''group'', VStr c3)], r ''avg_age''),
        (''AgeGroup'', [(''group'', VStr ''0-4''), (''representation'', VStr l1)], v1),
        (''AgeGroup'', [(''group'', VStr ''5-14''), (''representation'', VStr l2)], v2),
        (''AgeGroup'', [(''group'', VStr ''15-24''), (''representation'', VStr l3)], v3),
        (''AgeGroup'', [(''group'', VStr ''25-44''), (''representation'', VStr l4)], v4),
        (''AgeGroup'', [(''group'', VStr ''45-64''), (''representation'', VStr l5)], v5),
        (''AgeGroup'', [(''group'', VStr ''65+''), (''representation'', VStr l6)], v6),
        (''WealthIndex'', [(''category'', VStr c5)], r ''normalized_wlthindxcy''),
        (''EducationLevel'', [(''level'', VStr ''BASIC''), (''representation'', VStr m1)], w1),
        (''EducationLevel'', [(''level'', VStr ''SECONDARY''), (''representation'', VStr m2)], w2),
        (''EducationLevel'', [(''level'', VStr ''HIGHER''), (''representation'', VStr m3)], w3),
        (''CrimeIndex'', [(''category'', VStr c7)], r ''crmcytotc''),
        (''FastFoodSpendingIndex'', [(''category'', VStr c8)], r ''normalized_fastfoodspending'')]"
proof -
  obtain es where es: "enrichments ar r = Inr es"
    by (simp add: enrichments_def age_groups_value education_value bindE_def)
  have cp: "enrichment_pairs es = classifier_pairs ar r"
    by (simp add: classifier_pairs_def es)
  show ?thesis
    by (rule that[OF es])
       (simp add: cp classifier_pairs_value age_group_aggregations_def education_levels_def Let_def)
qed

lemma dict_get_Cons: "dict_get ((k, v) # xs) k' = (if k = k' then v else dict_get xs k')"
  by (simp add: dict_get_def)

lemma dict_get_Nil: "dict_get [] k = VNone"
  by (simp add: dict_get_def)

lemma enrichment_row_edges:
  assumes p0: "(etype, combination, v) \<in> set (classifier_pairs ar r)"
    and bg: "bg \<in> set (nodes g)" "node_label bg = ''BlockGroup''"
            "dict_get (node_props bg) ''ct_block_group'' = VStr (ct_block_group_of str_of r)"
    and c: "c \<in> set (nodes g)" "pair_binds c (etype, combination, v)"
    and ids: "distinct (map node_id (nodes g))"
  shows "length (classifier_pairs ar r) = 15
    \<and> fst (enrichment_row str_of ar (n, failed, g) r) = n + 15
    \<and> fst (snd (enrichment_row str_of ar (n, failed, g) r)) = failed
    \<and> map rel_props (filter (rel_between ''HAS_ENRICHMENT'' (node_id bg) (node_id c))
         (rels (snd (snd (enrichment_row str_of ar (n, failed, g) r)))))
       = replicate
           (max 1 (length (filter (rel_between ''HAS_ENRICHMENT'' (node_id bg) (node_id c))
                             (rels g))))
           [(''source_value'', VStr (str_of (VFloat v)))]"
proof -
  obtain es c1 c2 c3 c5 c7 c8 l1 l2 l3 l4 l5 l6 v1 v2 v3 v4 v5 v6 m1 m2 m3 w1 w2 w3 where
    es: "enrichments ar r = Inr es"
    and shape: "enrichment_pairs es =
       [(''TotalPopulation'', [(''level'', VStr c1)], r ''totpop_cy''),
        (''PopulationGrowth'', [(''growth_rate'', VStr c2)], r ''popgrwcyfy''),
        (''AgeAverage'', [(''group'', VStr c3)], r ''avg_age''),
        (''AgeGroup'', [(''group'', VStr ''0-4''), (''representation'', VStr l1)], v1),
        (''AgeGroup'', [(''group'', VStr ''5-14''), (''representation'', VStr l2)], v2),
        (''AgeGroup'', [(''group'', VStr ''15-24''), (''representation'', VStr l3)], v3),
        (''AgeGroup'', [(''group'', VStr ''25-44''), (''representation'', VStr l4)], v4),
        (''AgeGroup'', [(''group'', VStr ''45-64''), (''representation'', VStr l5)], v5),
        (''AgeGroup'', [(''group'', VStr ''65+''), (''representation'', VStr l6)], v6),
        (''WealthIndex'', [(''category'', VStr c5)], r ''normalized_wlthindxcy''),
        (''EducationLevel'', [(''level'', VStr ''BASIC''), (''representation'', VStr m1)], w1),
        (''EducationLevel'', [(''level'', VStr ''SECONDARY''), (''representation'', VStr m2)], w2),
        (''EducationLevel'', [(''level'', VStr ''HIGHER''), (''representation'', VStr m3)], w3),
        (''CrimeIndex'', [(''category'', VStr c7)], r ''crmcytotc''),
        (''FastFoodSpendingIndex'', [(''category'', VStr c8)], r ''normalized_fastfoodspending'')]"
    by (rule enrichment_pairs_shape)
  have cp: "classifier_pairs ar r = enrichment_pairs es"
    by (simp add: classifier_pairs_def es)
  let ?ps = "enrichment_pairs es"
  let ?ct = "ct_block_group_of str_of r"
  have len: "length ?ps = 15"
    using shape by simp
  have wf: "\<forall>p \<in> set ?ps. ''ct_block_group'' \<notin> set (map fst (fst (snd p)))
                          \<and> ''rel_properties'' \<notin> set (map fst (fst (snd p)))"
    using shape by simp
  have p0': "(etype, combination, v) \<in> set ?ps"
    using p0 cp by simp
  have same: "\<forall>p \<in> set ?ps. pair_binds c p \<longrightarrow> snd (snd p) = v"
    using p0' c(2) unfolding shape
    by (auto simp: pair_binds_def cy_eq_VStr dict_get_Cons dict_get_Nil)
  have ex: "\<exists>p \<in> set ?ps. pair_binds c p"
    using p0' c(2) by blast
  note fold = enrichment_edges_fold[OF wf bg c(1) ids same, of str_of n failed]
  have row: "enrichment_row str_of ar (n, failed, g) r
             = foldl (enrichment_edge str_of ?ct) (n, failed, g) ?ps"
    by (simp add: enrichment_row_def es)
  have M: "map rel_props (filter (rel_between ''HAS_ENRICHMENT'' (node_id bg) (node_id c))
         (rels (snd (snd (enrichment_row str_of ar (n, failed, g) r)))))
       = replicate (max 1 (length (filter (rel_between ''HAS_ENRICHMENT'' (node_id bg) (node_id c))
                                    (rels g))))
           [(''source_value'', VStr (str_of (VFloat v)))]"
    unfolding row using fold ex by simp
  show ?thesis
    using len fold M row cp by simp
qed

text \<open>
  C8, amended to what the code does.  For a row, the classifier produces fifteen
  (metric, bucket) pairs: the population, the growth rate, the average age, the wealth
  index, the crime index and the spending index each with the category of the value of
  their column, that value being the source value; and for each of the six age groups
  and the three education levels the level of its share, the share being the source
  value: the quotient of the aggregate by the population, or 0.0 when the population is
  zero.  The builder issues one \<open>HAS_ENRICHMENT\<close> upsert for each pair, counts each as a
  success and records no failure.  Take one of the pairs, with its source value \<open>v\<close>,
  in a store that holds the block group node of the row and the category node the
  pair's end pattern binds.  When the builder has processed the row, a \<open>HAS_ENRICHMENT\<close>
  edge lies between the two nodes (one, created by the builder, when there was none
  before), and the only property of each is \<open>source_value\<close>, the text \<open>str(v)\<close> of the
  raw or derived value that produced the bucket: the value is persisted as its rendering,
  a string, not as a number.  The builder then goes on with the rows that follow.
\<close>

theorem enrichment_edges_written:
  assumes "(etype, combination, v) \<in> set (classifier_pairs ar r)"
    and "bg \<in> set (nodes g)" and "node_label bg = ''BlockGroup''"
    and "dict_get (node_props bg) ''ct_block_group'' = VStr (ct_block_group_of str_of r)"
    and "c \<in> set (nodes g)" and "pair_binds c (etype, combination, v)"
    and "distinct (map node_id (nodes g))"
  shows "classifier_pairs ar r =
     [(''TotalPopulation'', [(''level'', VStr (population_category (r ''totpop_cy'')))],
       r ''totpop_cy''),
      (''PopulationGrowth'', [(''growth_rate'', VStr (growth_category (r ''popgrwcyfy'')))],
       r ''popgrwcyfy''),
      (''AgeAverage'', [(''group'', VStr (age_average_category (r ''avg_age'')))], r ''avg_age'')]
     @ map (\<lambda>a. let share = (if r ''totpop_cy'' = 0 then 0
                               else num_div ar (snd a) (r ''totpop_cy''))
                 in (''AgeGroup'',
                     [(''group'', VStr (fst a)),
                      (''representation'', VStr (age_representation_level share))],
                     share))
         (age_group_aggregations ar r)
     @ [(''WealthIndex'',
         [(''category'', VStr (wealth_category (r ''normalized_wlthindxcy'')))],
         r ''normalized_wlthindxcy'')]
     @ map (\<lambda>a. let share = (if r ''totpop_cy'' = 0 then 0
                               else num_div ar (snd a) (r ''totpop_cy''))
                 in (''EducationLevel'',
                     [(''level'', VStr (fst a)),
                      (''representation'', VStr (education_representation_level share))],
                     share))
         (education_levels r)
     @ [(''CrimeIndex'', [(''category'', VStr (crime_category (r ''crmcytotc'')))],
         r ''crmcytotc''),
        (''FastFoodSpendingIndex'',
         [(''category'', VStr (spending_category (r ''normalized_fastfoodspending'')))],
         r ''normalized_fastfoodspending'')]
    \<and> length (classifier_pairs ar r) = 15
    \<and> fst (create_enrichment_relationships str_of ar g (before @ [r]))
        = fst (create_enrichment_relationships str_of ar g before) + 15
    \<and> fst (snd (create_enrichment_relationships str_of ar g (before @ [r])))
        = fst (snd (create_enrichment_relationships str_of ar g before))
    \<and> map rel_props (filter (rel_between ''HAS_ENRICHMENT'' (node_id bg) (node_id c))
         (rels (snd (snd (create_enrichment_relationships str_of ar g (before @ [r]))))))
       = replicate
           (max 1 (length (filter (rel_between ''HAS_ENRICHMENT'' (node_id bg) (node_id c))
                             (rels g))))
           [(''source_value'', VStr (str_of (VFloat v)))]
    \<and> create_enrichment_relationships str_of ar g (before @ r # after)
        = foldl (enrichment_row str_of ar)
            (create_enrichment_relationships str_of ar g (before @ [r])) after"
proof -
  let ?F = "\<lambda>g. filter (rel_between ''HAS_ENRICHMENT'' (node_id bg) (node_id c)) (rels g)"
  obtain n1 f1 g1 where pre:
    "create_enrichment_relationships str_of ar g before = (n1, f1, g1)"
    by (metis prod_cases3)
  have keep: "nodes g1 = nodes g" "max 1 (length (?F g1)) = max 1 (length (?F g))"
    using enrichment_rows_keep[of str_of ar 0 "[]" g before "''HAS_ENRICHMENT''"
        "node_id bg" "node_id c"] pre
    by (simp_all add: create_enrichment_relationships_def)
  have run1: "create_enrichment_relationships str_of ar g (before @ [r])
              = enrichment_row str_of ar (n1, f1, g1) r"
    using pre by (simp add: create_enrichment_relationships_def)
  have run2: "create_enrichment_relationships str_of ar g (before @ r # after)
        = foldl (enrichment_row str_of ar)
            (create_enrichment_relationships str_of ar g (before @ [r])) after"
    by (simp add: create_enrichment_relationships_def)
  note row = enrichment_row_edges[OF assms(1), of bg g1 str_of c n1 f1,
      unfolded keep, OF assms(2-7)]
  show ?thesis
    using row run2 classifier_pairs_value[of ar r]
    unfolding run1 pre by simp
qed

text \<open>
  The example: the row with 50 of its 500 inhabitants under five, and the pair of the age
  group \<open>0-4\<close>, whose source value is the share 0.1 and whose bucket is \<open>MODERATE\<close>.
\<close>

theorem enrichment_edges_written_witness:
  "(''AgeGroup'', [(''group'', VStr ''0-4''), (''representation'', VStr ''MODERATE'')], lit_0_10)
     \<in> set (classifier_pairs double_arith share_row)
   \<and> num_div double_arith (py_sum double_arith 30 [20]) 500 = lit_0_10
   \<and> dict_get [(''ct_block_group'', VStr ''1001.0'')] ''ct_block_group''
       = VStr (ct_block_group_of example_str share_row)
   \<and> pair_binds \<lparr>node_id = 2, node_label = ''AgeGroup'',
                   node_props = [(''group'', VStr ''0-4''),
                                 (''representation'', VStr ''MODERATE'')]\<rparr>
        (''AgeGroup'', [(''group'', VStr ''0-4''), (''representation'', VStr ''MODERATE'')],
         lit_0_10)
   \<and> distinct (map node_id (nodes share_store))
   \<and> length (classifier_pairs double_arith share_row) = 15
   \<and> fst (create_enrichment_relationships example_str double_arith share_store
             ([] @ [share_row]))
       = fst (create_enrichment_relationships example_str double_arith share_store []) + 15
   \<and> fst (create_enrichment_relationships example_str double_arith share_store []) = 0
   \<and> map rel_props (filter (rel_between ''HAS_ENRICHMENT'' 1 2)
         (rels (snd (snd (create_enrichment_relationships example_str double_arith
                            share_store ([] @ [share_row]))))))
       = [[(''source_value'', VStr (example_str (VFloat lit_0_10)))]]
   \<and> example_str (VFloat lit_0_10) = ''0.1''"
proof -
  let ?bg = "\<lparr>node_id = 1, node_label = ''BlockGroup'',
              node_props = [(''ct_block_group'', VStr ''1001.0'')]\<rparr>"
  let ?c = "\<lparr>node_id = 2, node_label = ''AgeGroup'',
             node_props = [(''group'', VStr ''0-4''), (''representation'', VStr ''MODERATE'')]\<rparr>"
  have h1: "(''AgeGroup'', [(''group'', VStr ''0-4''), (''representation'', VStr ''MODERATE'')],
             lit_0_10)
              \<in> set (classifier_pairs double_arith share_row)"
    by code_simp
  have share: "num_div double_arith (py_sum double_arith 30 [20]) 500 = lit_0_10"
    by code_simp
  have h2: "?bg \<in> set (nodes share_store)" and h5: "?c \<in> set (nodes share_store)"
    by (simp_all add: share_store_def)
  have h3: "node_label ?bg = ''BlockGroup''"
    by simp
  have key: "ct_block_group_of example_str share_row = ''1001.0''"
    by (simp add: ct_block_group_of_def example_str_def share_row_def py_int_def)
  have h4: "dict_get (node_props ?bg) ''ct_block_group''
            = VStr (ct_block_group_of example_str share_row)"
    by (simp add: key dict_get_def)
  have h6: "pair_binds ?c
              (''AgeGroup'', [(''group'', VStr ''0-4''), (''representation'', VStr ''MODERATE'')],
               lit_0_10)"
    by (simp add: pair_binds_def cy_eq_def dict_get_def)
  have h7: "distinct (map node_id (nodes share_store))"
    by (simp add: share_store_def)
  have ids: "node_id ?bg = 1" "node_id ?c = 2"
    "node_props ?bg = [(''ct_block_group'', VStr ''1001.0'')]"
    by simp_all
  have none: "max 1 (length (filter (rel_between ''HAS_ENRICHMENT'' 1 2) (rels share_store)))
              = 1"
    by (simp add: share_store_def)
  have zero: "fst (create_enrichment_relationships example_str double_arith share_store []) = 0"
    by (simp add: create_enrichment_relationships_def)
  have rendered: "example_str (VFloat lit_0_10) = ''0.1''"
    by code_simp
  note inst = enrichment_edges_written [OF h1 h2 h3 h4 h5 h6 h7, of "[]", unfolded ids none]
  have written0: "map rel_props (filter (rel_between ''HAS_ENRICHMENT'' 1 2)
         (rels (snd (snd (create_enrichment_relationships example_str double_arith
                            share_store ([] @ [share_row]))))))
       = replicate 1 [(''source_value'', VStr (example_str (VFloat lit_0_10)))]"
    using inst by blast
  then have written: "map rel_props (filter (rel_between ''HAS_ENRICHMENT'' 1 2)
         (rels (snd (snd (create_enrichment_relationships example_str double_arith
                            share_store ([] @ [share_row]))))))
       = [[(''source_value'', VStr (example_str (VFloat lit_0_10)))]]"
    by (simp only: replicate.simps One_nat_def)
  have count: "fst (create_enrichment_relationships example_str double_arith share_store
             ([] @ [share_row]))
       = fst (create_enrichment_relationships example_str double_arith share_store []) + 15"
    using inst by blast
  have len: "length (classifier_pairs double_arith share_row) = 15"
    using inst by blast
  show ?thesis
    using h1 share h4 h6 h7 len count zero written rendered unfolding ids by blast
qed

text \<open>
  C8 as stated fails on the example in two ways.  The edge written for the pair
  (\<open>TotalPopulation\<close>, \<open>LOW\<close>) of a row with 500 inhabitants carries the string
  \<open>500.0\<close>, not the number 500.  And of the fifteen pairs the classifier produces for
  the row, each counted as a success, that one alone has its category node in the store:
  for the fourteen others no edge is written.
\<close>

theorem source_value_is_text:
  "map rel_props (filter (rel_between ''HAS_ENRICHMENT'' 1 2)
     (rels (snd (snd (create_enrichment_relationships example_str double_arith enrichment_store
                        [example_row])))))
     = [[(''source_value'', VStr ''500.0'')]]
   \<and> map rel_props (filter (rel_between ''HAS_ENRICHMENT'' 1 2)
     (rels (snd (snd (create_enrichment_relationships example_str double_arith enrichment_store
                        [example_row])))))
     \<noteq> [[(''source_value'', VFloat 500)]]
   \<and> length (classifier_pairs double_arith example_row) = 15
   \<and> create_enrichment_relationships example_str double_arith enrichment_store [example_row]
     = (15, [],
        enrichment_store
          \<lparr>rels := [\<lparr>rel_type = ''HAS_ENRICHMENT'', rel_start = 1, rel_end = 2,
                      rel_props = [(''source_value'', VStr ''500.0'')]\<rparr>]\<rparr>)"
proof -
  have written: "map rel_props (filter (rel_between ''HAS_ENRICHMENT'' 1 2)
     (rels (snd (snd (create_enrichment_relationships example_str double_arith enrichment_store
                        [example_row])))))
     = [[(''source_value'', VStr ''500.0'')]]"
    by code_simp
  have len: "length (classifier_pairs double_arith example_row) = 15"
    by code_simp
  have run: "create_enrichment_relationships example_str double_arith enrichment_store
               [example_row]
     = (15, [],
        enrichment_store
          \<lparr>rels := [\<lparr>rel_type = ''HAS_ENRICHMENT'', rel_start = 1, rel_end = 2,
                      rel_props = [(''source_value'', VStr ''500.0'')]\<rparr>]\<rparr>)"
    by code_simp
  show ?thesis
    unfolding written using len run by simp
qed

end
